theory Spec2Isabelle
  imports Main "HOL-Library.Sublist"
begin

section \<open>Configuration (src/libs/auth.js, lines 45--71)\<close>

text \<open>
  The frozen objects \<open>authTypes\<close> and \<open>authStatuses\<close> hold string constants; they are
  kept as strings, so that the three-way dispatch of the initialisation handler keeps its
  third branch.
\<close>

definition SINGLE_FACTOR :: string where
  "SINGLE_FACTOR = ''sfa''"

definition TWO_FACTOR :: string where
  "TWO_FACTOR = ''2fa''"

definition NEED_SECOND_FACTOR :: string where
  "NEED_SECOND_FACTOR = ''needSecondFactor''"

definition COMPLETE :: string where
  "COMPLETE = ''complete''"

definition GENERIC_AUTH_ERROR_MESSAGE :: string where
  "GENERIC_AUTH_ERROR_MESSAGE =
     ''Username or password incorrect or credential not found or user verification failed''"

section \<open>Data\<close>

text \<open>
  A stored credential has the fields the registration handler writes (lines 584--595);
  \<open>isResidentKey\<close> is present only when the client supplied \<open>credProps\<close>, and then
  holds \<open>credProps.rk\<close>, which may itself be undefined.
\<close>

record credential =
  publicKey :: string
  credId :: string
  name :: string
  transports :: "string list"
  creationDate :: nat
  isResidentKey :: "bool option option"

text \<open>A user as \<open>createOrGetUser\<close> builds it (lines 161--165).\<close>

record user =
  username :: string
  user_id :: string
  credentials :: "credential list"


text \<open>
  The session object of express-session, with the properties this file reads and writes.
  A property that was never written is undefined (\<open>None\<close>).
\<close>

record session =
  s_name :: "string option"
  s_username :: "string option"
  s_isPasswordCorrect :: "bool option"
  s_authStatus :: "string option"
  s_challenge :: "string option"

definition new_session :: session where
  "new_session = \<lparr>s_name = None, s_username = None, s_isPasswordCorrect = None,
     s_authStatus = None, s_challenge = None\<rparr>"

text \<open>
  The negations \<open>!username\<close> and \<open>!isPasswordCorrect\<close>: undefined, the empty string and
  \<open>false\<close> are falsy.
\<close>

definition truthy_string :: "string option \<Rightarrow> bool" where
  "truthy_string v = (case v of None \<Rightarrow> False | Some s \<Rightarrow> s \<noteq> [])"

definition truthy_bool :: "bool option \<Rightarrow> bool" where
  "truthy_bool v = (v = Some True)"

text \<open>
  Exceptions. A \<open>TypeError\<close> is raised by the engine when a property of undefined is
  read or written (its text is the engine's; no statement below depends on the wording),
  \<open>HeadersSent\<close> by \<open>res.json\<close> when a response has already been sent, and a
  \<open>VerifierError\<close> by the WebAuthn library, with the message the library chose.
\<close>

datatype exn = TypeError string | HeadersSent | VerifierError string

fun message :: "exn \<Rightarrow> string" where
  "message (TypeError m) = m"
| "message HeadersSent = ''Cannot set headers after they are sent to the client''"
| "message (VerifierError m) = m"

text \<open>The JSON bodies the handlers send.\<close>

datatype body =
    Error string
  | ValidationErrors
  | AuthMsg string string
  | UserJson user
  | AssertionOptions string "(string \<times> string list) list"

record response =
  status :: nat
  body :: body

text \<open>
  The state a handler works on: the lowdb \<open>users\<close> array, the request's session
  (identifier and object, as express-session put them on the request), the sessions the
  session store holds under their identifiers, the response sent so far, and an exception
  thrown inside a store callback, where no \<open>try\<close> of the handler reaches it.
\<close>

record state =
  db :: "user list"
  sessionID :: nat
  session :: session
  store :: "nat \<rightharpoonup> session"
  sent :: "response option"
  uncaught :: "exn option"

datatype completion = Normal | Throw exn

type_synonym stmt = "state \<Rightarrow> completion \<times> state"

text \<open>
  \<open>res.status(code).json(b)\<close>. Express sends at most one response per request: a second
  \<open>json\<close> throws (``Cannot set headers after they are sent to the client'') and leaves
  the first response in place. When the response ends, express-session writes the
  request's session, as it is at that moment, to the store under the request's session
  identifier (the write is taken to succeed). What a handler does to the session
  object after the response has ended is not written by that response.
\<close>

definition send :: "nat \<Rightarrow> body \<Rightarrow> stmt" where
  "send code b st =
     (if sent st = None
      then (Normal, st\<lparr>sent := Some \<lparr>status = code, body = b\<rparr>,
                       store := (store st)(sessionID st \<mapsto> session st)\<rparr>)
      else (Throw HeadersSent, st))"

text \<open>Sequencing, \<open>if (c) { s }\<close> without a \<open>return\<close>, and \<open>try { s } catch (e) { h }\<close>.\<close>

definition andThen :: "stmt \<Rightarrow> stmt \<Rightarrow> stmt" where
  "andThen s t st = (case s st of (Normal, st') \<Rightarrow> t st' | (Throw e, st') \<Rightarrow> (Throw e, st'))"

definition ifThen :: "bool \<Rightarrow> stmt \<Rightarrow> stmt" where
  "ifThen c s st = (if c then s st else (Normal, st))"

definition tryCatch :: "stmt \<Rightarrow> (exn \<Rightarrow> stmt) \<Rightarrow> stmt" where
  "tryCatch s h st = (case s st of (Normal, st') \<Rightarrow> (Normal, st') | (Throw e, st') \<Rightarrow> h e st')"

definition delete_challenge :: "state \<Rightarrow> state" where
  "delete_challenge st = st\<lparr>session := (session st)\<lparr>s_challenge := None\<rparr>\<rparr>"

text \<open>
  Modelled from the spec: a later request that presents a session token. The session
  store is keyed by the token; express-session puts on the request the session the store
  holds under it, and a new, empty session under a new identifier when the store holds
  none. Nothing has been sent for the new request yet.
\<close>

definition next_request :: "nat \<Rightarrow> nat \<Rightarrow> state \<Rightarrow> state" where
  "next_request token freshID st =
     (case store st token of
        Some s \<Rightarrow> st\<lparr>sessionID := token, session := s, sent := None, uncaught := None\<rparr>
      | None \<Rightarrow> st\<lparr>sessionID := freshID, session := new_session, sent := None,
                     uncaught := None\<rparr>)"

text \<open>
  The process environment: \<open>authSettings.RP_ID\<close>, \<open>process.env.ORIGIN\<close> and
  \<open>process.env.ANDROID_SHA256HASH\<close>.
\<close>

record env =
  RP_ID :: string
  ORIGIN :: string
  ANDROID_SHA256HASH :: string

section \<open>Utils (lines 78--88)\<close>

definition isPasswordCorrect :: "string \<Rightarrow> string \<Rightarrow> bool" where
  "isPasswordCorrect uname password = True"

definition getAuthType :: "credential list \<Rightarrow> string" where
  "getAuthType creds = (if length creds > 0 then TWO_FACTOR else SINGLE_FACTOR)"

text \<open>
  The middleware \<open>csrfCheck\<close> and \<open>sessionCheck\<close> (lines 90--104): each either answers
  itself or hands over to the next handler.
\<close>

definition csrfCheck :: "string option \<Rightarrow> stmt \<Rightarrow> stmt" where
  "csrfCheck xRequestedWith nxt st =
     (if xRequestedWith \<noteq> Some ''XMLHttpRequest'' then send 400 (Error ''Invalid access'') st
      else nxt st)"

definition sessionCheck :: "stmt \<Rightarrow> stmt" where
  "sessionCheck nxt st =
     (if s_name (session st) \<noteq> Some ''main'' then send 401 (Error ''Not authenticated'') st
      else nxt st)"

subsection \<open>getOrigin (lines 106--118) and the library functions it calls\<close>

text \<open>
  \<open>String.prototype.indexOf\<close>: the first position at which the pattern occurs, or -1.
\<close>

fun indexOf :: "string \<Rightarrow> string \<Rightarrow> int" where
  "indexOf [] pat = (if pat = [] then 0 else - 1)"
| "indexOf (c # cs) pat =
     (if prefix pat (c # cs) then 0
      else (let i = indexOf cs pat in if i < 0 then - 1 else i + 1))"

text \<open>
  \<open>String.prototype.split\<close> with a one-character separator: the pieces between the
  separators; the empty string gives one empty piece.
\<close>

fun split :: "char \<Rightarrow> string \<Rightarrow> string list" where
  "split sep [] = [[]]"
| "split sep (c # cs) =
     (if c = sep then [] # split sep cs
      else (case split sep cs of [] \<Rightarrow> [[c]] | w # ws \<Rightarrow> (c # w) # ws))"

text \<open>
  \<open>parseInt(h, 16)\<close> as ECMAScript defines it: leading white space is skipped, a sign is
  read, a prefix \<open>0x\<close> or \<open>0X\<close> is dropped, and the longest run of hexadecimal digits
  that follows is the number; no digit at all gives NaN (\<open>None\<close>). The result is a double,
  so an integer of more than 53 bits is rounded to the nearest double (ties to even).
  Strings are over the 8-bit characters of HOL; of the white space of ECMAScript only
  the characters below U+0100 are in the model.
\<close>

definition isWhiteSpace :: "char \<Rightarrow> bool" where
  "isWhiteSpace c = ((of_char c :: nat) \<in> {9, 10, 11, 12, 13, 32, 160})"

definition hexDigit :: "char \<Rightarrow> nat option" where
  "hexDigit c =
     (let n = (of_char c :: nat) in
      if 48 \<le> n \<and> n \<le> 57 then Some (n - 48)
      else if 97 \<le> n \<and> n \<le> 102 then Some (n - 87)
      else if 65 \<le> n \<and> n \<le> 70 then Some (n - 55)
      else None)"

fun hexPrefix :: "string \<Rightarrow> nat list" where
  "hexPrefix [] = []"
| "hexPrefix (c # cs) = (case hexDigit c of None \<Rightarrow> [] | Some d \<Rightarrow> d # hexPrefix cs)"

fun bitLength :: "nat \<Rightarrow> nat" where
  "bitLength n = (if n = 0 then 0 else Suc (bitLength (n div 2)))"

declare bitLength.simps [simp del]

definition toFloat64 :: "nat \<Rightarrow> nat" where
  "toFloat64 n =
     (let e = bitLength n - 53 in
      if e = 0 then n
      else (let q = n div 2 ^ e; r = n mod 2 ^ e; h = 2 ^ (e - 1) in
            (if r > h \<or> (r = h \<and> odd q) then q + 1 else q) * 2 ^ e))"

definition parseInt16 :: "string \<Rightarrow> int option" where
  "parseInt16 s =
     (let s1 = dropWhile isWhiteSpace s;
          sign = (if take 1 s1 = ''-'' then - 1 else 1 :: int);
          s2 = (if take 1 s1 = ''+'' \<or> take 1 s1 = ''-'' then drop 1 s1 else s1);
          s3 = (if take 2 s2 = ''0x'' \<or> take 2 s2 = ''0X'' then drop 2 s2 else s2);
          ds = hexPrefix s3
      in if ds = [] then None
         else Some (sign * int (toFloat64 (foldl (\<lambda>acc d. 16 * acc + d) 0 ds))))"

text \<open>
  \<open>base64url.encode\<close> of an array: \<open>Buffer.from\<close> stores each number as an octet (NaN as
  0, everything else modulo 256), \<open>toString("base64")\<close> is the padded base64 text, and
  \<open>fromBase64\<close> of the base64url package drops the padding and replaces \<open>+\<close> by \<open>-\<close>
  and \<open>/\<close> by \<open>_\<close>. For octets every index into the alphabet is below 64; the
  reduction modulo 64 in \<open>base64Char\<close> only keeps the look-up in range.
\<close>

definition toUint8 :: "int option \<Rightarrow> nat" where
  "toUint8 v = (case v of None \<Rightarrow> 0 | Some i \<Rightarrow> nat (i mod 256))"

definition base64Alphabet :: string where
  "base64Alphabet = ''ABCDEFGHIJKLMNOPQRSTUVWXYZabcdefghijklmnopqrstuvwxyz0123456789+/''"

definition base64Char :: "nat \<Rightarrow> char" where
  "base64Char i = base64Alphabet ! (i mod 64)"

fun base64 :: "nat list \<Rightarrow> string" where
  "base64 [] = []"
| "base64 [a] = [base64Char (a div 4), base64Char (a mod 4 * 16), CHR ''='', CHR ''='']"
| "base64 [a, b] =
     [base64Char (a div 4), base64Char (a mod 4 * 16 + b div 16),
      base64Char (b mod 16 * 4), CHR ''='']"
| "base64 (a # b # c # rest) =
     [base64Char (a div 4), base64Char (a mod 4 * 16 + b div 16),
      base64Char (b mod 16 * 4 + c div 64), base64Char (c mod 64)] @ base64 rest"

definition fromBase64 :: "string \<Rightarrow> string" where
  "fromBase64 s =
     map (\<lambda>c. if c = CHR ''+'' then CHR ''-'' else if c = CHR ''/'' then CHR ''_'' else c)
       (filter (\<lambda>c. c \<noteq> CHR ''='') s)"

definition base64url_encode :: "int option list \<Rightarrow> string" where
  "base64url_encode arr = fromBase64 (base64 (map toUint8 arr))"

definition getOrigin :: "env \<Rightarrow> string \<Rightarrow> string" where
  "getOrigin e userAgent =
     (if indexOf userAgent ''okhttp'' = 0 then
        (let octArray = map parseInt16 (split CHR '':'' (ANDROID_SHA256HASH e));
             androidHash = base64url_encode octArray
         in ''android:apk-key-hash:'' @ androidHash)
      else ORIGIN e)"

text \<open>
  The bytes a fingerprint denotes, following the spec's wording (``hash-bytes'' of the
  configured package-signing hash): the hash is written as pairs of hexadecimal digits
  separated by colons, and each pair is one byte. A string of another shape denotes no
  bytes.
\<close>

definition pairValue :: "string \<Rightarrow> nat option" where
  "pairValue p =
     (case p of
        [a, b] \<Rightarrow> (case (hexDigit a, hexDigit b) of
                     (Some x, Some y) \<Rightarrow> Some (16 * x + y)
                   | _ \<Rightarrow> None)
      | _ \<Rightarrow> None)"

definition fingerprintBytes :: "string \<Rightarrow> nat list option" where
  "fingerprintBytes s = those (map pairValue (split CHR '':'' s))"

text \<open>
  The base64url text of a byte sequence, following the spec's wording (``base64url'', the
  encoding of RFC 4648, section 5, without padding): three bytes give four characters of
  the URL-safe alphabet, whose last two characters are \<open>-\<close> and \<open>_\<close>; a last group of
  one byte gives two characters and one of two bytes three, and no \<open>=\<close> is appended.
\<close>

definition base64urlAlphabet :: string where
  "base64urlAlphabet = ''ABCDEFGHIJKLMNOPQRSTUVWXYZabcdefghijklmnopqrstuvwxyz0123456789-_''"

definition base64urlChar :: "nat \<Rightarrow> char" where
  "base64urlChar i = base64urlAlphabet ! (i mod 64)"

fun base64url :: "nat list \<Rightarrow> string" where
  "base64url [] = []"
| "base64url [a] = [base64urlChar (a div 4), base64urlChar (a mod 4 * 16)]"
| "base64url [a, b] =
     [base64urlChar (a div 4), base64urlChar (a mod 4 * 16 + b div 16),
      base64urlChar (b mod 16 * 4)]"
| "base64url (a # b # c # rest) =
     [base64urlChar (a div 4), base64urlChar (a mod 4 * 16 + b div 16),
      base64urlChar (b mod 16 * 4 + c div 64), base64urlChar (c mod 64)] @ base64url rest"

section \<open>Database management and actions (lines 124--169)\<close>

text \<open>
  lowdb's \<open>find({ username })\<close> is the first user whose \<open>username\<close> equals the given
  one; every stored user has a string there, so an undefined \<open>username\<close> matches nobody.
  \<open>find(...).assign(obj)\<close> overwrites properties of that first user and does nothing
  when there is none.
\<close>

definition findUserByUsername :: "string option \<Rightarrow> user list \<Rightarrow> user option" where
  "findUserByUsername uname users =
     (case uname of None \<Rightarrow> None | Some u \<Rightarrow> find (\<lambda>usr. username usr = u) users)"

definition createUser :: "user \<Rightarrow> user list \<Rightarrow> user list" where
  "createUser usr users = users @ [usr]"

fun assignFirst :: "('a \<Rightarrow> bool) \<Rightarrow> ('a \<Rightarrow> 'a) \<Rightarrow> 'a list \<Rightarrow> 'a list" where
  "assignFirst p f [] = []"
| "assignFirst p f (x # xs) = (if p x then f x # xs else x # assignFirst p f xs)"

definition updateUser :: "string option \<Rightarrow> user \<Rightarrow> user list \<Rightarrow> user list" where
  "updateUser uname usr users =
     (case uname of None \<Rightarrow> users
      | Some u \<Rightarrow> assignFirst (\<lambda>x. username x = u) (\<lambda>x. usr) users)"

definition updateCredentials :: "string option \<Rightarrow> credential list \<Rightarrow> user list \<Rightarrow> user list" where
  "updateCredentials uname creds users =
     (case uname of None \<Rightarrow> users
      | Some u \<Rightarrow> assignFirst (\<lambda>x. username x = u) (\<lambda>x. x\<lparr>credentials := creds\<rparr>) users)"

text \<open>
  \<open>createOrGetUser\<close>; \<open>newId\<close> stands for \<open>base64url.encode(crypto.randomBytes(32))\<close>.
  The result is the user and the users array after the call.
\<close>

definition createOrGetUser :: "string \<Rightarrow> string \<Rightarrow> user list \<Rightarrow> user \<times> user list" where
  "createOrGetUser newId uname users =
     (case findUserByUsername (Some uname) users of
        Some usr \<Rightarrow> (usr, users)
      | None \<Rightarrow>
          (let usr = \<lparr>username = uname, user_id = newId, credentials = []\<rparr>
           in (usr, createUser usr users)))"

section \<open>Session management (lines 175--223)\<close>

text \<open>
  Modelled from the spec: the session store behind \<open>req.session\<close> (express-session, set
  up outside this file). \<open>regenerate\<close> invalidates the old key and puts a new, empty
  session under a new token on the request; \<open>save\<close> writes the request's session
  under its identifier. Either may report an error to its callback: a failed
  \<open>regenerate\<close> leaves the old key in the store (the new session is put on the request
  all the same), a failed \<open>save\<close> writes nothing. The identifier the store draws and
  the two error reports are the store's to choose; the token it issues is a new one, so
  a draw that repeats the current identifier is replaced by another identifier.
\<close>

record store_outcome =
  newSessionID :: nat
  regenerate_err :: bool
  save_err :: bool

definition issuedSessionID :: "store_outcome \<Rightarrow> nat \<Rightarrow> nat" where
  "issuedSessionID so current =
     (if newSessionID so = current then Suc current else newSessionID so)"

definition regenerate :: "store_outcome \<Rightarrow> state \<Rightarrow> state" where
  "regenerate so st =
     st\<lparr>store := (if regenerate_err so then store st else (store st)(sessionID st := None)),
        sessionID := issuedSessionID so (sessionID st),
        session := new_session\<rparr>"

definition save :: "store_outcome \<Rightarrow> state \<Rightarrow> state" where
  "save so st =
     (if save_err so then st else st\<lparr>store := (store st)(sessionID st \<mapsto> session st)\<rparr>)"

text \<open>
  \<open>completeAuthentication\<close> (lines 203--223). The two callbacks ignore their \<open>err\<close>
  argument. They run from the store, so an exception of the final \<open>res.json\<close> is not the
  caller's to catch: it is recorded in \<open>uncaught\<close>.
\<close>

definition completeAuthentication :: "store_outcome \<Rightarrow> stmt" where
  "completeAuthentication so st =
     (let uname = s_username (session st);
          pw = s_isPasswordCorrect (session st)
      in if \<not> truthy_string uname \<or> \<not> truthy_bool pw
         then send 401 (Error GENERIC_AUTH_ERROR_MESSAGE) st
         else
           (let st1 = regenerate so st;
                st2 = st1\<lparr>session := (session st1)\<lparr>s_name := Some ''main'', s_username := uname\<rparr>\<rparr>;
                st3 = save so st2
            in case send 200 (AuthMsg ''Authentication complete'' COMPLETE) st3 of
                 (Normal, st4) \<Rightarrow> (Normal, st4)
               | (Throw e, st4) \<Rightarrow> (Normal, st4\<lparr>uncaught := Some e\<rparr>)))"

section \<open>The authentication handlers (lines 250--403)\<close>

text \<open>
  \<open>POST /initialize-authentication\<close>. The handler sees the request after the validation
  chain has run: \<open>i_valid\<close> is \<open>validationResult(req).isEmpty()\<close>, and the body holds
  the escaped fields.
\<close>

record init_request =
  i_valid :: bool
  i_username :: string
  i_password :: string

definition setAuthSession :: "string \<Rightarrow> string \<Rightarrow> state \<Rightarrow> state" where
  "setAuthSession uname password st =
     st\<lparr>session := (session st)\<lparr>s_username := Some uname,
          s_isPasswordCorrect := Some (isPasswordCorrect uname password)\<rparr>\<rparr>"

definition post_initialize_authentication :: "store_outcome \<Rightarrow> string \<Rightarrow> init_request \<Rightarrow> stmt" where
  "post_initialize_authentication so newId rq st =
     (if \<not> i_valid rq
      then send 400 (Error ''Username or password is empty or contains invalid characters'') st
      else
        (let password = i_password rq;
             uname = i_username rq;
             (usr, users) = createOrGetUser newId uname (db st);
             st1 = setAuthSession uname password (st\<lparr>db := users\<rparr>);
             authType = getAuthType (credentials usr)
         in if authType = SINGLE_FACTOR then completeAuthentication so st1
            else if authType = TWO_FACTOR then
              send 200
                (AuthMsg ''Need two factors because two-factor-authentication was configured for this account''
                   NEED_SECOND_FACTOR)
                (st1\<lparr>session := (session st1)\<lparr>s_authStatus := Some NEED_SECOND_FACTOR\<rparr>\<rparr>)
            else send 500 (Error ''Unkown authentication type'') st1))"

text \<open>
  \<open>POST /two-factor-options\<close>; \<open>ch\<close> is the challenge of the options that
  \<open>fido2.generateAssertionOptions\<close> returns.
\<close>

definition post_two_factor_options :: "string \<Rightarrow> stmt" where
  "post_two_factor_options ch =
     tryCatch
       (\<lambda>st. case findUserByUsername (s_username (session st)) (db st) of
                None \<Rightarrow> (Throw (TypeError ''Cannot read property credentials of undefined''), st)
              | Some usr \<Rightarrow>
                  (let allowCredentials = map (\<lambda>cred. (credId cred, transports cred)) (credentials usr)
                   in send 200 (AssertionOptions ch allowCredentials)
                        (st\<lparr>session := (session st)\<lparr>s_challenge := Some ch\<rparr>\<rparr>)))
       (\<lambda>e. send 400
          (Error (''Getting two-factor authentication options failed: '' @ GENERIC_AUTH_ERROR_MESSAGE)))"

text \<open>
  \<open>POST /authenticate-two-factor\<close>. The verifier \<open>fido2.verifyAssertionResponse\<close> is a
  parameter: it returns \<open>verified\<close> or throws. None of the three \<open>if\<close> blocks that
  answer 401 returns, so the handler goes on after each of them. A request is taken to
  carry a \<open>User-Agent\<close> header and a \<open>credential\<close> object in its body.
\<close>

record client_credential =
  c_id :: string
  c_response :: string

record assertion_opts =
  a_credential :: client_credential
  a_expectedChallenge :: "string option"
  a_expectedOrigin :: string
  a_expectedRPID :: string
  a_authenticator :: "credential option"

datatype verification = VerifierThrows string | Verification bool

record auth_request =
  userAgent :: string
  credentialFromClient :: client_credential

definition authFailed :: body where
  "authFailed = Error (''Authentication failed: '' @ GENERIC_AUTH_ERROR_MESSAGE)"

definition post_authenticate_two_factor ::
  "env \<Rightarrow> (assertion_opts \<Rightarrow> verification) \<Rightarrow> store_outcome \<Rightarrow> auth_request \<Rightarrow> stmt" where
  "post_authenticate_two_factor e verifyAssertionResponse so rq st0 =
     (let fromClient = credentialFromClient rq;
          expectedOrigin = getOrigin e (userAgent rq);
          expectedRPID = RP_ID e;
          uname = s_username (session st0);
          pw = s_isPasswordCorrect (session st0);
          expectedChallenge = s_challenge (session st0)
      in andThen (ifThen (\<not> truthy_string uname \<or> \<not> truthy_bool pw) (send 401 authFailed))
           (\<lambda>st1. case findUserByUsername uname (db st1) of
               None \<Rightarrow> (Throw (TypeError ''Cannot read property credentials of undefined''), st1)
             | Some usr \<Rightarrow>
                 (let fromServer = find (\<lambda>cred. credId cred = c_id fromClient) (credentials usr)
                  in andThen (ifThen (fromServer = None) (send 401 authFailed))
                       (tryCatch
                          (\<lambda>st2. case verifyAssertionResponse
                                     \<lparr>a_credential = fromClient,
                                      a_expectedChallenge = expectedChallenge,
                                      a_expectedOrigin = expectedOrigin,
                                      a_expectedRPID = expectedRPID,
                                      a_authenticator = fromServer\<rparr> of
                              VerifierThrows m \<Rightarrow> (Throw (VerifierError m), st2)
                            | Verification verified \<Rightarrow>
                                andThen (ifThen (\<not> verified) (send 401 authFailed))
                                  (\<lambda>st3. completeAuthentication so
                                     (delete_challenge (st3\<lparr>db := updateUser uname usr (db st3)\<rparr>)))
                                  st2)
                          (\<lambda>ex st. send 400 (Error (message ex)) (delete_challenge st)))
                       st1))
           st0)"

section \<open>Credential management (lines 431--608)\<close>

text \<open>
  \<open>DELETE /credential\<close>. The handler is not asynchronous and has no \<open>try\<close>: when no
  user is found the exception leaves the handler. The user object that is sent is the one
  in the database, which \<open>updateCredentials\<close> has just changed.
\<close>

definition delete_credential :: "string \<Rightarrow> stmt" where
  "delete_credential credIdToRemove st =
     (let uname = s_username (session st)
      in case findUserByUsername uname (db st) of
           None \<Rightarrow> (Throw (TypeError ''Cannot read property credentials of undefined''), st)
         | Some usr \<Rightarrow>
             (let updatedCredentials = filter (\<lambda>cred. credId cred \<noteq> credIdToRemove) (credentials usr)
              in send 200 (UserJson (usr\<lparr>credentials := updatedCredentials\<rparr>))
                   (st\<lparr>db := updateCredentials uname updatedCredentials (db st)\<rparr>)))"

text \<open>
  \<open>PUT /credential\<close>. \<open>Array.prototype.findIndex\<close> gives -1 when no element
  matches; \<open>updatedCredentials[-1]\<close> is then undefined and writing its \<open>name\<close> throws
  inside the \<open>try\<close>. The query's \<open>name\<close> may be missing; \<open>newName || ""\<close> turns
  undefined into the empty string.
\<close>

fun findIndex :: "('a \<Rightarrow> bool) \<Rightarrow> 'a list \<Rightarrow> int" where
  "findIndex p [] = - 1"
| "findIndex p (x # xs) =
     (if p x then 0 else (let i = findIndex p xs in if i < 0 then - 1 else i + 1))"

record rename_request =
  q_valid :: bool
  q_credId :: string
  q_name :: "string option"

definition orEmpty :: "string option \<Rightarrow> string" where
  "orEmpty v = (case v of None \<Rightarrow> [] | Some n \<Rightarrow> n)"

definition put_credential :: "rename_request \<Rightarrow> stmt" where
  "put_credential rq st0 =
     (if \<not> q_valid rq then send 400 ValidationErrors st0
      else
        (let newName = q_name rq in
         tryCatch
           (\<lambda>st. let uname = s_username (session st) in
              case findUserByUsername uname (db st) of
                None \<Rightarrow>
                  (Throw (TypeError ''Cannot destructure property credentials of user as it is undefined.''), st)
              | Some usr \<Rightarrow>
                  (let creds = credentials usr;
                       indexOfCredentialToUpdate = findIndex (\<lambda>el. credId el = q_credId rq) creds
                   in if indexOfCredentialToUpdate < 0 \<or> indexOfCredentialToUpdate \<ge> int (length creds)
                      then (Throw (TypeError ''Cannot set property name of undefined''), st)
                      else
                        (let i = nat indexOfCredentialToUpdate;
                             updatedCredentials = creds[i := (creds ! i)\<lparr>name := orEmpty newName\<rparr>]
                         in send 200 (UserJson (usr\<lparr>credentials := updatedCredentials\<rparr>))
                              (st\<lparr>db := updateCredentials uname updatedCredentials (db st)\<rparr>))))
           (\<lambda>ex. send 400 (Error (message ex)))
           st0))"

text \<open>
  \<open>POST /credential\<close>. The attestation verifier is a parameter. The look-up for an
  existing credential reads the property \<open>credID\<close> of each stored credential; the stored
  property is \<open>credId\<close>, so the read gives undefined, and \<open>===\<close> compares that with the
  string \<open>base64CredentialID\<close>. \<open>now\<close> stands for \<open>Date.now()\<close>.
\<close>

datatype jsval = Undefined | Str string

definition credID :: "credential \<Rightarrow> jsval" where
  "credID cred = Undefined"

record authenticatorInfo =
  base64PublicKey :: string
  base64CredentialID :: string

datatype attestation = AttestationThrows string | Unverified | Verified authenticatorInfo

record reg_request =
  r_userAgent :: string
  r_valid :: bool
  r_id :: string
  r_response :: string
  r_transports :: "string list option"
  r_credProps :: "bool option option"

record attestation_opts =
  t_credential :: reg_request
  t_expectedChallenge :: "string option"
  t_expectedOrigin :: string
  t_expectedRPID :: string

definition newCredential :: "authenticatorInfo \<Rightarrow> reg_request \<Rightarrow> nat \<Rightarrow> credential" where
  "newCredential info rq now =
     \<lparr>publicKey = base64PublicKey info,
      credId = base64CredentialID info,
      name = [],
      transports = (case r_transports rq of None \<Rightarrow> [] | Some ts \<Rightarrow> ts),
      creationDate = now,
      isResidentKey = r_credProps rq\<rparr>"

definition post_credential ::
  "env \<Rightarrow> (attestation_opts \<Rightarrow> attestation) \<Rightarrow> nat \<Rightarrow> reg_request \<Rightarrow> stmt" where
  "post_credential e verifyAttestationResponse now rq st0 =
     (let expectedChallenge = s_challenge (session st0);
          uname = s_username (session st0);
          expectedOrigin = getOrigin e (r_userAgent rq);
          expectedRPID = RP_ID e
      in tryCatch
           (\<lambda>st. case verifyAttestationResponse
                       \<lparr>t_credential = rq,
                        t_expectedChallenge = expectedChallenge,
                        t_expectedOrigin = expectedOrigin,
                        t_expectedRPID = expectedRPID\<rparr> of
                AttestationThrows m \<Rightarrow> (Throw (VerifierError m), st)
              | Unverified \<Rightarrow> send 400 (Error ''User verification failed'') st
              | Verified info \<Rightarrow>
                  if \<not> r_valid rq then send 400 ValidationErrors st
                  else
                    (case findUserByUsername uname (db st) of
                       None \<Rightarrow>
                         (Throw (TypeError ''Cannot read property credentials of undefined''), st)
                     | Some usr \<Rightarrow>
                         (let existingCred =
                                find (\<lambda>cred. credID cred = Str (base64CredentialID info)) (credentials usr);
                              usr' = (if existingCred = None
                                      then usr\<lparr>credentials := credentials usr @ [newCredential info rq now]\<rparr>
                                      else usr)
                          in send 200 (UserJson usr')
                               (delete_challenge (st\<lparr>db := updateUser uname usr' (db st)\<rparr>)))))
           (\<lambda>ex st. send 400 (Error (message ex)) (delete_challenge st))
           st0)"

section \<open>Sample data\<close>

text \<open>
  One registered user with one credential, a session that has passed the password step
  and carries a pending challenge, a store whose operations succeed, and a verifier that
  accepts exactly the assertion whose response is \<open>signed\<close>.
\<close>

definition sample_env :: env where
  "sample_env = \<lparr>RP_ID = ''localhost'', ORIGIN = ''https://example.com'',
     ANDROID_SHA256HASH = ''01:02:03''\<rparr>"

definition sample_key :: credential where
  "sample_key = \<lparr>publicKey = ''pk1'', credId = ''k1'', name = ''laptop'', transports = [''usb''],
     creationDate = 1600000000000, isResidentKey = None\<rparr>"

definition sample_user :: user where
  "sample_user = \<lparr>username = ''ann@example.com'', user_id = ''id1'', credentials = [sample_key]\<rparr>"

definition fresh_state :: "user list \<Rightarrow> state" where
  "fresh_state users =
     \<lparr>db = users, sessionID = 1, session = new_session, store = Map.empty(1 \<mapsto> new_session),
      sent = None, uncaught = None\<rparr>"

definition sample_store_outcome :: store_outcome where
  "sample_store_outcome = \<lparr>newSessionID = 2, regenerate_err = False, save_err = False\<rparr>"

definition sample_login :: "string \<Rightarrow> init_request" where
  "sample_login uname = \<lparr>i_valid = True, i_username = uname, i_password = ''secret''\<rparr>"

definition awaiting_session :: session where
  "awaiting_session = \<lparr>s_name = None, s_username = Some ''ann@example.com'',
     s_isPasswordCorrect = Some True, s_authStatus = Some NEED_SECOND_FACTOR,
     s_challenge = Some ''ch1''\<rparr>"

definition awaiting_state :: state where
  "awaiting_state = \<lparr>db = [sample_user], sessionID = 1, session = awaiting_session,
     store = Map.empty(1 \<mapsto> awaiting_session), sent = None, uncaught = None\<rparr>"

definition sample_assertion :: "string \<Rightarrow> auth_request" where
  "sample_assertion resp =
     \<lparr>userAgent = ''Mozilla/5.0'', credentialFromClient = \<lparr>c_id = ''k1'', c_response = resp\<rparr>\<rparr>"

definition sample_verifier :: "assertion_opts \<Rightarrow> verification" where
  "sample_verifier opts =
     (if c_response (a_credential opts) = ''signed'' then Verification True
      else VerifierThrows ''Unexpected assertion challenge'')"

text \<open>
  An assertion that names a credential the sample user does not have; a store whose
  \<open>regenerate\<close> fails; the fully authenticated session of the sample user with a
  pending registration challenge; a registration whose attestation verifies and names the
  credential the user already has; a rename request; and an environment whose hash is a
  full SHA-256 fingerprint (that of the empty input).
\<close>

definition unknown_assertion :: auth_request where
  "unknown_assertion =
     \<lparr>userAgent = ''Mozilla/5.0'', credentialFromClient = \<lparr>c_id = ''k9'', c_response = ''forged''\<rparr>\<rparr>"


definition main_session :: session where
  "main_session = \<lparr>s_name = Some ''main'', s_username = Some ''ann@example.com'',
     s_isPasswordCorrect = None, s_authStatus = None, s_challenge = Some ''ch2''\<rparr>"

definition main_state :: state where
  "main_state = \<lparr>db = [sample_user], sessionID = 2, session = main_session,
     store = Map.empty(2 \<mapsto> main_session), sent = None, uncaught = None\<rparr>"

definition sample_registration :: reg_request where
  "sample_registration = \<lparr>r_userAgent = ''Mozilla/5.0'', r_valid = True, r_id = ''k1'',
     r_response = ''attestation'', r_transports = Some [''usb''], r_credProps = None\<rparr>"

definition sample_attestation :: "attestation_opts \<Rightarrow> attestation" where
  "sample_attestation opts =
     (if t_expectedChallenge opts = Some ''ch2''
      then Verified \<lparr>base64PublicKey = ''pk1'', base64CredentialID = ''k1''\<rparr>
      else AttestationThrows ''Unexpected attestation challenge'')"

definition sample_rename :: "string \<Rightarrow> rename_request" where
  "sample_rename k = \<lparr>q_valid = True, q_credId = k, q_name = Some []\<rparr>"

definition sha256_env :: env where
  "sha256_env = \<lparr>RP_ID = ''localhost'', ORIGIN = ''https://example.com'',
     ANDROID_SHA256HASH =
       ''E3:B0:C4:42:98:FC:1C:14:9A:FB:F4:C8:99:6F:B9:24:27:AE:41:E4:64:9B:93:4C:A4:95:99:1B:78:52:B8:55''\<rparr>"

section \<open>Middleware\<close>

text \<open>
  The credential routes run \<open>csrfCheck\<close> and \<open>sessionCheck\<close> before their handler. A
  request that carries the header \<open>X-Requested-With: XMLHttpRequest\<close> on a \<open>main\<close>
  session reaches the handler unchanged; any other is answered by the middleware.
\<close>

lemma middleware_passes:
  "s_name (session st) = Some ''main'' \<Longrightarrow>
   csrfCheck (Some ''XMLHttpRequest'') (sessionCheck handler) st = handler st"
  by (simp add: csrfCheck_def sessionCheck_def)

lemma middleware_refuses:
  "sent st = None \<Longrightarrow> s_name (session st) \<noteq> Some ''main'' \<Longrightarrow>
   csrfCheck (Some ''XMLHttpRequest'') (sessionCheck handler) st =
     (Normal, st\<lparr>sent := Some \<lparr>status = 401, body = Error ''Not authenticated''\<rparr>,
                 store := (store st)(sessionID st \<mapsto> session st)\<rparr>)"
  by (simp add: csrfCheck_def sessionCheck_def send_def)

section \<open>Stored users\<close>

lemma find_assignFirst:
  "find p xs = Some x \<Longrightarrow> p (f x) \<Longrightarrow> find p (assignFirst p f xs) = Some (f x)"
  by (induction xs) (auto split: if_splits)

lemma findUser_username:
  "findUserByUsername uname users = Some usr \<Longrightarrow> uname = Some (username usr)"
  by (cases uname) (auto simp add: findUserByUsername_def dest: find_Some_iff [THEN iffD1])

lemma findUser_updateCredentials:
  assumes "findUserByUsername uname users = Some usr"
  shows "findUserByUsername uname (updateCredentials uname creds users)
           = Some (usr\<lparr>credentials := creds\<rparr>)"
proof -
  have u: "uname = Some (username usr)" using assms by (rule findUser_username)
  then have f: "find (\<lambda>x. username x = username usr) users = Some usr"
    using assms by (simp add: findUserByUsername_def)
  show ?thesis
    using u find_assignFirst [OF f, of "\<lambda>x. x\<lparr>credentials := creds\<rparr>"]
    by (simp add: findUserByUsername_def updateCredentials_def)
qed

lemma findUser_updateUser:
  assumes "findUserByUsername uname users = Some usr" and "username usr' = username usr"
  shows "findUserByUsername uname (updateUser uname usr' users) = Some usr'"
proof -
  have u: "uname = Some (username usr)" using assms(1) by (rule findUser_username)
  then have f: "find (\<lambda>x. username x = username usr) users = Some usr"
    using assms(1) by (simp add: findUserByUsername_def)
  show ?thesis
    using u assms(2) find_assignFirst [OF f, of "\<lambda>x. usr'"]
    by (simp add: findUserByUsername_def updateUser_def)
qed

lemma post_credential_verified:
  assumes "verifyAttestationResponse
             \<lparr>t_credential = rq,
              t_expectedChallenge = s_challenge (session st),
              t_expectedOrigin = getOrigin e (r_userAgent rq),
              t_expectedRPID = RP_ID e\<rparr> = Verified info"
      and "r_valid rq"
      and "findUserByUsername (s_username (session st)) (db st) = Some usr"
      and "sent st = None"
  shows "post_credential e verifyAttestationResponse now rq st =
      send 200 (UserJson (usr\<lparr>credentials := credentials usr @ [newCredential info rq now]\<rparr>))
        (delete_challenge (st\<lparr>db := updateUser (s_username (session st))
           (usr\<lparr>credentials := credentials usr @ [newCredential info rq now]\<rparr>) (db st)\<rparr>))"
proof -
  have "find (\<lambda>cred. credID cred = Str (base64CredentialID info)) (credentials usr) = None"
    by (simp add: credID_def find_None_iff)
  then show ?thesis
    using assms
    by (simp add: post_credential_def Let_def tryCatch_def send_def delete_challenge_def)
qed

lemma delete_credential_found:
  assumes "findUserByUsername (s_username (session st)) (db st) = Some usr"
      and "sent st = None"
  shows "delete_credential k st =
      send 200 (UserJson (usr\<lparr>credentials := filter (\<lambda>cred. credId cred \<noteq> k) (credentials usr)\<rparr>))
        (st\<lparr>db := updateCredentials (s_username (session st))
              (filter (\<lambda>cred. credId cred \<noteq> k) (credentials usr)) (db st)\<rparr>)"
  using assms by (simp add: delete_credential_def Let_def)

section \<open>The authentication policy\<close>

text \<open>
  Claim C6. \<open>getAuthType\<close> answers two-factor exactly when the credential sequence it is
  given is non-empty and single-factor exactly when it is empty; it reads nothing but
  that sequence. So the answer follows every change of the stored sequence at once: for
  the user as stored by a successful registration the answer is two-factor, and for the
  user as stored by a removal it is two-factor exactly when a credential is left.
\<close>

theorem getAuthType_policy:
  "(getAuthType cs = TWO_FACTOR \<longleftrightarrow> cs \<noteq> []) \<and>
   (getAuthType cs = SINGLE_FACTOR \<longleftrightarrow> cs = []) \<and>
   (verifyAttestationResponse
      \<lparr>t_credential = rq,
       t_expectedChallenge = s_challenge (session st),
       t_expectedOrigin = getOrigin e (r_userAgent rq),
       t_expectedRPID = RP_ID e\<rparr> = Verified info \<and>
    r_valid rq \<and> findUserByUsername (s_username (session st)) (db st) = Some usr \<and> sent st = None \<longrightarrow>
      (\<exists>usr'. findUserByUsername (s_username (session st))
                 (db (snd (post_credential e verifyAttestationResponse now rq st))) = Some usr' \<and>
              getAuthType (credentials usr') = TWO_FACTOR)) \<and>
   (findUserByUsername (s_username (session st)) (db st) = Some usr \<and> sent st = None \<longrightarrow>
      (\<exists>usr'. findUserByUsername (s_username (session st)) (db (snd (delete_credential k st)))
                 = Some usr' \<and>
              credentials usr' = filter (\<lambda>cred. credId cred \<noteq> k) (credentials usr) \<and>
              getAuthType (credentials usr') =
                (if credentials usr' = [] then SINGLE_FACTOR else TWO_FACTOR)))"
proof (intro conjI impI)
  show "getAuthType cs = TWO_FACTOR \<longleftrightarrow> cs \<noteq> []"
    by (simp add: getAuthType_def TWO_FACTOR_def SINGLE_FACTOR_def)
  show "getAuthType cs = SINGLE_FACTOR \<longleftrightarrow> cs = []"
    by (simp add: getAuthType_def TWO_FACTOR_def SINGLE_FACTOR_def)
next
  assume h: "verifyAttestationResponse
      \<lparr>t_credential = rq,
       t_expectedChallenge = s_challenge (session st),
       t_expectedOrigin = getOrigin e (r_userAgent rq),
       t_expectedRPID = RP_ID e\<rparr> = Verified info \<and>
    r_valid rq \<and> findUserByUsername (s_username (session st)) (db st) = Some usr \<and> sent st = None"
  let ?usr' = "usr\<lparr>credentials := credentials usr @ [newCredential info rq now]\<rparr>"
  have "findUserByUsername (s_username (session st))
          (db (snd (post_credential e verifyAttestationResponse now rq st))) = Some ?usr'"
    using h post_credential_verified [of verifyAttestationResponse rq st e info usr now]
          findUser_updateUser [of "s_username (session st)" "db st" usr ?usr']
    by (simp add: delete_challenge_def send_def)
  moreover have "getAuthType (credentials ?usr') = TWO_FACTOR"
    by (simp add: getAuthType_def)
  ultimately show "\<exists>usr'. findUserByUsername (s_username (session st))
                 (db (snd (post_credential e verifyAttestationResponse now rq st))) = Some usr' \<and>
              getAuthType (credentials usr') = TWO_FACTOR"
    by blast
next
  assume h: "findUserByUsername (s_username (session st)) (db st) = Some usr \<and> sent st = None"
  let ?usr' = "usr\<lparr>credentials := filter (\<lambda>cred. credId cred \<noteq> k) (credentials usr)\<rparr>"
  have "findUserByUsername (s_username (session st)) (db (snd (delete_credential k st))) = Some ?usr'"
    using h delete_credential_found [of st usr k]
          findUser_updateCredentials [of "s_username (session st)" "db st" usr]
    by (simp add: send_def)
  moreover have "getAuthType (credentials ?usr') =
                (if credentials ?usr' = [] then SINGLE_FACTOR else TWO_FACTOR)"
    by (simp add: getAuthType_def)
  ultimately show "\<exists>usr'. findUserByUsername (s_username (session st)) (db (snd (delete_credential k st)))
                 = Some usr' \<and>
              credentials usr' = filter (\<lambda>cred. credId cred \<noteq> k) (credentials usr) \<and>
              getAuthType (credentials usr') =
                (if credentials usr' = [] then SINGLE_FACTOR else TWO_FACTOR)"
    by auto
qed

theorem getAuthType_policy_witness:
  "getAuthType (credentials sample_user) = TWO_FACTOR \<and>
   (\<exists>usr'. findUserByUsername (Some ''ann@example.com'') (db (snd (delete_credential ''k1'' main_state)))
             = Some usr' \<and>
           credentials usr' = [] \<and>
           getAuthType (credentials usr') = SINGLE_FACTOR)"
proof -
  have pre: "findUserByUsername (s_username (session main_state)) (db main_state) = Some sample_user
       \<and> sent main_state = None"
    by (simp add: main_state_def main_session_def findUserByUsername_def sample_user_def)
  have uname: "s_username (session main_state) = Some ''ann@example.com''"
    by (simp add: main_state_def main_session_def)
  have gone: "filter (\<lambda>cred. credId cred \<noteq> ''k1'') (credentials sample_user) = []"
    by (simp add: sample_user_def sample_key_def)
  have two: "getAuthType (credentials sample_user) = TWO_FACTOR"
    using getAuthType_policy [of "credentials sample_user"] by (simp add: sample_user_def)
  obtain usr' where r:
      "findUserByUsername (s_username (session main_state))
         (db (snd (delete_credential ''k1'' main_state))) = Some usr'"
      "credentials usr' = filter (\<lambda>cred. credId cred \<noteq> ''k1'') (credentials sample_user)"
      "getAuthType (credentials usr') = (if credentials usr' = [] then SINGLE_FACTOR else TWO_FACTOR)"
    using getAuthType_policy [where st = main_state and usr = sample_user and k = "''k1''"] pre
    by blast
  show ?thesis
    using two r unfolding uname gone by auto
qed

section \<open>Responses and completion\<close>

lemma completeAuthentication_accepts:
  assumes "truthy_string (s_username (session st))"
      and "truthy_bool (s_isPasswordCorrect (session st))"
  shows "completeAuthentication so st =
     (Normal,
      if sent st = None
      then (save so ((regenerate so st)\<lparr>session := new_session\<lparr>s_name := Some ''main'',
                s_username := s_username (session st)\<rparr>\<rparr>))
             \<lparr>sent := Some \<lparr>status = 200, body = AuthMsg ''Authentication complete'' COMPLETE\<rparr>,
              store := (store (save so (regenerate so st)))
                (issuedSessionID so (sessionID st) \<mapsto>
                   new_session\<lparr>s_name := Some ''main'', s_username := s_username (session st)\<rparr>)\<rparr>
      else (save so ((regenerate so st)\<lparr>session := new_session\<lparr>s_name := Some ''main'',
                s_username := s_username (session st)\<rparr>\<rparr>))
             \<lparr>uncaught := Some HeadersSent\<rparr>)"
  using assms
  by (auto simp add: completeAuthentication_def Let_def send_def regenerate_def save_def)

lemma completeAuthentication_completes:
  assumes "truthy_string (s_username (session st))"
      and "truthy_bool (s_isPasswordCorrect (session st))"
      and "sent st = None"
  shows "completeAuthentication so st =
     (Normal,
      (save so ((regenerate so st)\<lparr>session := new_session\<lparr>s_name := Some ''main'',
           s_username := s_username (session st)\<rparr>\<rparr>))
        \<lparr>sent := Some \<lparr>status = 200, body = AuthMsg ''Authentication complete'' COMPLETE\<rparr>,
         store := (store (save so (regenerate so st)))
           (issuedSessionID so (sessionID st) \<mapsto>
              new_session\<lparr>s_name := Some ''main'', s_username := s_username (session st)\<rparr>)\<rparr>)"
  using completeAuthentication_accepts [OF assms(1,2), of so] assms(3) by simp

section \<open>The password step\<close>

text \<open>
  Claim C10 as stated fails on the code: after a single-factor login the session that is
  left is the regenerated \<open>main\<close> session, and it carries no \<open>isPasswordCorrect\<close>. On
  the sample data the unknown user \<open>bob\<close> is provisioned without credentials and logged
  in at once; the flag is undefined in the session on the request, which is also the
  session stored under the new token.
\<close>

theorem single_factor_login_drops_flag:
  "sent (snd (post_initialize_authentication sample_store_outcome ''id2''
            (sample_login ''bob@example.com'') (fresh_state [sample_user])))
     = Some \<lparr>status = 200, body = AuthMsg ''Authentication complete'' COMPLETE\<rparr> \<and>
   s_isPasswordCorrect (session (snd (post_initialize_authentication sample_store_outcome ''id2''
            (sample_login ''bob@example.com'') (fresh_state [sample_user])))) = None \<and>
   store (snd (post_initialize_authentication sample_store_outcome ''id2''
            (sample_login ''bob@example.com'') (fresh_state [sample_user]))) 2
     = Some \<lparr>s_name = Some ''main'', s_username = Some ''bob@example.com'',
             s_isPasswordCorrect = None, s_authStatus = None, s_challenge = None\<rparr>"
  by (simp add: post_initialize_authentication_def Let_def sample_login_def fresh_state_def
      createOrGetUser_def createUser_def findUserByUsername_def sample_user_def getAuthType_def
      SINGLE_FACTOR_def TWO_FACTOR_def setAuthSession_def isPasswordCorrect_def
      completeAuthentication_def truthy_string_def truthy_bool_def regenerate_def save_def
      issuedSessionID_def sample_store_outcome_def send_def new_session_def)

text \<open>
  Claim C10, amended. \<open>isPasswordCorrect\<close> is true for every username and password.
  Hence a request that passed validation (so its username is not empty) has \<open>true\<close>
  written into the session's \<open>isPasswordCorrect\<close> and is never refused on password
  grounds: the answer is 200 with an authentication status. After a request answered
  \<open>needSecondFactor\<close> the session, on the request and in the store, carries the flag
  \<open>true\<close>. After a request answered \<open>complete\<close> the handler has handed the session,
  with the flag \<open>true\<close>, to \<open>completeAuthentication\<close>, and the session left is the
  regenerated \<open>main\<close> session, which carries no flag.
\<close>

theorem password_check_always_passes:
  "isPasswordCorrect u p \<and>
   (i_valid rq \<and> i_username rq \<noteq> [] \<and> sent st = None \<longrightarrow>
      (\<exists>st1 st' msg a.
          st1 = setAuthSession (i_username rq) (i_password rq)
                  (st\<lparr>db := snd (createOrGetUser newId (i_username rq) (db st))\<rparr>) \<and>
          s_isPasswordCorrect (session st1) = Some True \<and>
          post_initialize_authentication so newId rq st = (Normal, st') \<and>
          sent st' = Some \<lparr>status = 200, body = AuthMsg msg a\<rparr> \<and>
          (if a = NEED_SECOND_FACTOR
           then s_isPasswordCorrect (session st') = Some True \<and>
                store st' (sessionID st') = Some (session st')
           else post_initialize_authentication so newId rq st = completeAuthentication so st1 \<and>
                s_name (session st') = Some ''main'' \<and>
                s_isPasswordCorrect (session st') = None \<and>
                store st' (sessionID st') = Some (session st'))))"
proof (intro conjI impI)
  show "isPasswordCorrect u p" by (simp add: isPasswordCorrect_def)
next
  assume h: "i_valid rq \<and> i_username rq \<noteq> [] \<and> sent st = None"
  obtain usr users where cu: "createOrGetUser newId (i_username rq) (db st) = (usr, users)"
    by (cases "createOrGetUser newId (i_username rq) (db st)")
  let ?st1 = "setAuthSession (i_username rq) (i_password rq) (st\<lparr>db := users\<rparr>)"
  have t: "truthy_string (s_username (session ?st1))" "truthy_bool (s_isPasswordCorrect (session ?st1))"
       "sent ?st1 = None"
    using h by (simp_all add: setAuthSession_def truthy_string_def truthy_bool_def isPasswordCorrect_def)
  have flag: "s_isPasswordCorrect (session ?st1) = Some True"
    by (simp add: setAuthSession_def isPasswordCorrect_def)
  have "\<exists>st' msg a.
          post_initialize_authentication so newId rq st = (Normal, st') \<and>
          sent st' = Some \<lparr>status = 200, body = AuthMsg msg a\<rparr> \<and>
          (if a = NEED_SECOND_FACTOR
           then s_isPasswordCorrect (session st') = Some True \<and>
                store st' (sessionID st') = Some (session st')
           else post_initialize_authentication so newId rq st = completeAuthentication so ?st1 \<and>
                s_name (session st') = Some ''main'' \<and>
                s_isPasswordCorrect (session st') = None \<and>
                store st' (sessionID st') = Some (session st'))"
  proof (cases "credentials usr = []")
    case True
    then have "post_initialize_authentication so newId rq st = completeAuthentication so ?st1"
      using h cu by (simp add: post_initialize_authentication_def getAuthType_def Let_def)
    then show ?thesis
      using completeAuthentication_completes [OF t, of so]
      by (simp add: save_def regenerate_def new_session_def COMPLETE_def NEED_SECOND_FACTOR_def)
  next
    case False
    then show ?thesis
      using h cu t
      by (simp add: post_initialize_authentication_def getAuthType_def Let_def send_def
          SINGLE_FACTOR_def TWO_FACTOR_def setAuthSession_def isPasswordCorrect_def)
  qed
  then show "\<exists>st1 st' msg a.
          st1 = setAuthSession (i_username rq) (i_password rq)
                  (st\<lparr>db := snd (createOrGetUser newId (i_username rq) (db st))\<rparr>) \<and>
          s_isPasswordCorrect (session st1) = Some True \<and>
          post_initialize_authentication so newId rq st = (Normal, st') \<and>
          sent st' = Some \<lparr>status = 200, body = AuthMsg msg a\<rparr> \<and>
          (if a = NEED_SECOND_FACTOR
           then s_isPasswordCorrect (session st') = Some True \<and>
                store st' (sessionID st') = Some (session st')
           else post_initialize_authentication so newId rq st = completeAuthentication so st1 \<and>
                s_name (session st') = Some ''main'' \<and>
                s_isPasswordCorrect (session st') = None \<and>
                store st' (sessionID st') = Some (session st'))"
    using cu flag by auto
qed

lemma sample_login_answer:
  "sent (snd (post_initialize_authentication sample_store_outcome ''id2''
        (sample_login ''ann@example.com'') (fresh_state [sample_user]))) =
      Some \<lparr>status = 200, body = AuthMsg
         ''Need two factors because two-factor-authentication was configured for this account''
         NEED_SECOND_FACTOR\<rparr>"
  "sent (snd (post_initialize_authentication sample_store_outcome ''id2''
        (sample_login ''bob@example.com'') (fresh_state [sample_user]))) =
      Some \<lparr>status = 200, body = AuthMsg ''Authentication complete'' COMPLETE\<rparr>"
  by (simp_all add: post_initialize_authentication_def Let_def sample_login_def fresh_state_def
      createOrGetUser_def createUser_def findUserByUsername_def sample_user_def getAuthType_def
      SINGLE_FACTOR_def TWO_FACTOR_def setAuthSession_def isPasswordCorrect_def
      completeAuthentication_def truthy_string_def truthy_bool_def regenerate_def save_def
      send_def)

theorem password_check_always_passes_witness:
  "isPasswordCorrect ''ann@example.com'' ''secret'' \<and>
   (\<exists>st'. post_initialize_authentication sample_store_outcome ''id2'' (sample_login ''ann@example.com'')
        (fresh_state [sample_user]) = (Normal, st') \<and>
      sent st' = Some \<lparr>status = 200, body = AuthMsg
         ''Need two factors because two-factor-authentication was configured for this account''
         NEED_SECOND_FACTOR\<rparr> \<and>
      s_isPasswordCorrect (session st') = Some True) \<and>
   (\<exists>st'. post_initialize_authentication sample_store_outcome ''id2'' (sample_login ''bob@example.com'')
        (fresh_state [sample_user]) = (Normal, st') \<and>
      sent st' = Some \<lparr>status = 200, body = AuthMsg ''Authentication complete'' COMPLETE\<rparr> \<and>
      s_name (session st') = Some ''main'' \<and>
      s_isPasswordCorrect (session st') = None)"
proof -
  have pre: "i_valid (sample_login n) \<and> i_username (sample_login n) \<noteq> []
       \<and> sent (fresh_state [sample_user]) = None" if "n \<noteq> []" for n
    using that by (simp add: sample_login_def fresh_state_def)
  have pw: "isPasswordCorrect ''ann@example.com'' ''secret''"
    using password_check_always_passes [of "''ann@example.com''" "''secret''"] by blast
  obtain sa msga a where ra:
      "post_initialize_authentication sample_store_outcome ''id2'' (sample_login ''ann@example.com'')
        (fresh_state [sample_user]) = (Normal, sa)"
      "sent sa = Some \<lparr>status = 200, body = AuthMsg msga a\<rparr>"
      "a = NEED_SECOND_FACTOR \<Longrightarrow> s_isPasswordCorrect (session sa) = Some True"
    using password_check_always_passes [of "''ann@example.com''" "''secret''"
          "sample_login ''ann@example.com''" "fresh_state [sample_user]" "''id2''" sample_store_outcome]
          pre [of "''ann@example.com''"]
    by (auto split: if_splits)
  obtain sb msgb b where rb:
      "post_initialize_authentication sample_store_outcome ''id2'' (sample_login ''bob@example.com'')
        (fresh_state [sample_user]) = (Normal, sb)"
      "sent sb = Some \<lparr>status = 200, body = AuthMsg msgb b\<rparr>"
      "b \<noteq> NEED_SECOND_FACTOR \<Longrightarrow>
         s_name (session sb) = Some ''main'' \<and> s_isPasswordCorrect (session sb) = None"
    using password_check_always_passes [of "''ann@example.com''" "''secret''"
          "sample_login ''bob@example.com''" "fresh_state [sample_user]" "''id2''" sample_store_outcome]
          pre [of "''bob@example.com''"]
    by (auto split: if_splits)
  have a: "a = NEED_SECOND_FACTOR" and
       ma: "msga = ''Need two factors because two-factor-authentication was configured for this account''"
    using sample_login_answer(1) ra(1,2) by simp_all
  have b: "b = COMPLETE" and mb: "msgb = ''Authentication complete''"
    using sample_login_answer(2) rb(1,2) by simp_all
  have "b \<noteq> NEED_SECOND_FACTOR" using b by (simp add: COMPLETE_def NEED_SECOND_FACTOR_def)
  then show ?thesis
    using pw ra rb a ma b mb by auto
qed

section \<open>Initialising an authentication\<close>

text \<open>
  Claim C7. For a request that passed validation, \<open>createOrGetUser\<close> finds the user or
  appends a new one with no credentials. When the user has no credential the handler
  answers 200 with status \<open>complete\<close> at once, the session is the \<open>main\<close> session and
  no second factor is recorded as pending. When the user has a credential the handler
  answers 200 with status \<open>needSecondFactor\<close> and records that status in the session.
\<close>

theorem initialize_authentication_outcome:
  assumes "i_valid rq" and "i_username rq \<noteq> []" and "sent st = None"
  shows "\<exists>usr users st'.
           createOrGetUser newId (i_username rq) (db st) = (usr, users) \<and>
           post_initialize_authentication so newId rq st = (Normal, st') \<and>
           db st' = users \<and>
           (findUserByUsername (Some (i_username rq)) (db st) = None \<longrightarrow>
              usr = \<lparr>username = i_username rq, user_id = newId, credentials = []\<rparr> \<and>
              users = db st @ [usr]) \<and>
           (credentials usr = [] \<longrightarrow>
              sent st' = Some \<lparr>status = 200, body = AuthMsg ''Authentication complete'' COMPLETE\<rparr> \<and>
              s_name (session st') = Some ''main'' \<and>
              s_authStatus (session st') = None) \<and>
           (credentials usr \<noteq> [] \<longrightarrow>
              sent st' = Some \<lparr>status = 200, body = AuthMsg
                ''Need two factors because two-factor-authentication was configured for this account''
                NEED_SECOND_FACTOR\<rparr> \<and>
              s_authStatus (session st') = Some NEED_SECOND_FACTOR \<and>
              s_name (session st') = s_name (session st))"
proof -
  obtain usr users where cu: "createOrGetUser newId (i_username rq) (db st) = (usr, users)"
    by (cases "createOrGetUser newId (i_username rq) (db st)")
  let ?st1 = "setAuthSession (i_username rq) (i_password rq) (st\<lparr>db := users\<rparr>)"
  have t: "truthy_string (s_username (session ?st1))" "truthy_bool (s_isPasswordCorrect (session ?st1))"
       "sent ?st1 = None"
    using assms by (simp_all add: setAuthSession_def truthy_string_def truthy_bool_def isPasswordCorrect_def)
  have prov: "findUserByUsername (Some (i_username rq)) (db st) = None \<longrightarrow>
              usr = \<lparr>username = i_username rq, user_id = newId, credentials = []\<rparr> \<and>
              users = db st @ [usr]"
    using cu by (auto simp add: createOrGetUser_def createUser_def Let_def)
  show ?thesis
  proof (cases "credentials usr = []")
    case True
    then have "post_initialize_authentication so newId rq st = completeAuthentication so ?st1"
      using assms cu by (simp add: post_initialize_authentication_def getAuthType_def Let_def)
    then show ?thesis
      using completeAuthentication_completes [OF t, of so] cu prov True
      by (simp add: save_def regenerate_def new_session_def setAuthSession_def)
  next
    case False
    then have "post_initialize_authentication so newId rq st =
        send 200 (AuthMsg
                ''Need two factors because two-factor-authentication was configured for this account''
                NEED_SECOND_FACTOR)
          (?st1\<lparr>session := (session ?st1)\<lparr>s_authStatus := Some NEED_SECOND_FACTOR\<rparr>\<rparr>)"
      using assms cu
      by (simp add: post_initialize_authentication_def getAuthType_def Let_def
          SINGLE_FACTOR_def TWO_FACTOR_def)
    then show ?thesis
      using cu prov False t by (simp add: setAuthSession_def send_def)
  qed
qed

theorem initialize_authentication_outcome_witness:
  "(\<exists>st'. post_initialize_authentication sample_store_outcome ''id2'' (sample_login ''bob@example.com'')
             (fresh_state [sample_user]) = (Normal, st') \<and>
          db st' = [sample_user, \<lparr>username = ''bob@example.com'', user_id = ''id2'', credentials = []\<rparr>] \<and>
          sent st' = Some \<lparr>status = 200, body = AuthMsg ''Authentication complete'' COMPLETE\<rparr> \<and>
          s_name (session st') = Some ''main'') \<and>
   (\<exists>st'. post_initialize_authentication sample_store_outcome ''id2'' (sample_login ''ann@example.com'')
             (fresh_state [sample_user]) = (Normal, st') \<and>
          db st' = [sample_user] \<and>
          s_authStatus (session st') = Some NEED_SECOND_FACTOR)"
  using initialize_authentication_outcome [of "sample_login ''bob@example.com''" "fresh_state [sample_user]"
          "''id2''" sample_store_outcome]
        initialize_authentication_outcome [of "sample_login ''ann@example.com''" "fresh_state [sample_user]"
          "''id2''" sample_store_outcome]
  by (auto simp add: sample_login_def fresh_state_def sample_user_def sample_key_def createOrGetUser_def
      findUserByUsername_def createUser_def Let_def)

section \<open>The second factor\<close>

text \<open>
  Claim C5. When the session has no username, or its password flag is not \<open>true\<close>, the
  handler of \<open>/authenticate-two-factor\<close> answers 401 with the generic authentication
  message, whatever the verifier would say about the assertion. The session is not
  regenerated: its identifier, its name, its username and its flag are what they were.
  The session store is touched only by the write at the end of the response, which puts
  the session as it was under its identifier; a store that held the session there is
  left as it was.
\<close>

theorem second_factor_needs_password_step:
  assumes "\<not> truthy_string (s_username (session st)) \<or> \<not> truthy_bool (s_isPasswordCorrect (session st))"
      and "sent st = None"
  shows "\<exists>c st'.
           post_authenticate_two_factor e verify so rq st = (c, st') \<and>
           sent st' = Some \<lparr>status = 401,
                            body = Error (''Authentication failed: '' @ GENERIC_AUTH_ERROR_MESSAGE)\<rparr> \<and>
           sessionID st' = sessionID st \<and>
           store st' = (store st)(sessionID st \<mapsto> session st) \<and>
           (store st (sessionID st) = Some (session st) \<longrightarrow> store st' = store st) \<and>
           s_name (session st') = s_name (session st) \<and>
           s_username (session st') = s_username (session st) \<and>
           s_isPasswordCorrect (session st') = s_isPasswordCorrect (session st)"
proof -
  let ?r = "\<lparr>status = 401, body = authFailed\<rparr>"
  let ?st1 = "st\<lparr>sent := Some ?r, store := (store st)(sessionID st \<mapsto> session st)\<rparr>"
  have first: "ifThen (\<not> truthy_string (s_username (session st)) \<or>
                  \<not> truthy_bool (s_isPasswordCorrect (session st))) (send 401 authFailed) st
               = (Normal, ?st1)"
    using assms by (simp add: ifThen_def send_def)
  have rej: "\<And>s. session s = session st \<or> session s = (session st)\<lparr>s_challenge := None\<rparr> \<Longrightarrow>
      sent s \<noteq> None \<Longrightarrow> completeAuthentication so s = (Throw HeadersSent, s)"
    using assms(1) by (auto simp add: completeAuthentication_def Let_def send_def)
  show ?thesis
    unfolding post_authenticate_two_factor_def Let_def andThen_def first
    using rej
    by (auto simp add: ifThen_def send_def tryCatch_def delete_challenge_def authFailed_def
        split: option.splits verification.splits)
qed

theorem second_factor_needs_password_step_witness:
  "\<exists>c st'.
      post_authenticate_two_factor sample_env sample_verifier sample_store_outcome
        (sample_assertion ''signed'')
        (awaiting_state\<lparr>session := awaiting_session\<lparr>s_isPasswordCorrect := None\<rparr>\<rparr>) = (c, st') \<and>
      sent st' = Some \<lparr>status = 401,
                       body = Error (''Authentication failed: '' @ GENERIC_AUTH_ERROR_MESSAGE)\<rparr> \<and>
      sessionID st' = 1 \<and> s_name (session st') = None"
  using second_factor_needs_password_step [of
          "awaiting_state\<lparr>session := awaiting_session\<lparr>s_isPasswordCorrect := None\<rparr>\<rparr>"
          sample_env sample_verifier sample_store_outcome "sample_assertion ''signed''"]
  by (auto simp add: awaiting_state_def awaiting_session_def truthy_bool_def)

text \<open>
  Claim C1. On a session that has passed the password step and whose asserted credential
  is stored, a verifier that throws makes the handler answer 400 with the verifier's own
  message, while a verifier that returns \<open>verified = false\<close> makes it answer 401 with
  the generic message. The caller can tell the two causes apart whenever the verifier's
  message is not the generic text.
\<close>

theorem verifier_exception_message_leaks:
  assumes "truthy_string (s_username (session st))"
      and "truthy_bool (s_isPasswordCorrect (session st))"
      and "findUserByUsername (s_username (session st)) (db st) = Some usr"
      and "find (\<lambda>cred. credId cred = c_id (credentialFromClient rq)) (credentials usr) = Some cred"
      and "sent st = None"
  shows "(verify \<lparr>a_credential = credentialFromClient rq,
                  a_expectedChallenge = s_challenge (session st),
                  a_expectedOrigin = getOrigin e (userAgent rq),
                  a_expectedRPID = RP_ID e,
                  a_authenticator = Some cred\<rparr> = VerifierThrows m \<longrightarrow>
            post_authenticate_two_factor e verify so rq st =
              (Normal, (delete_challenge st)\<lparr>sent := Some \<lparr>status = 400, body = Error m\<rparr>,
                 store := (store st)(sessionID st \<mapsto> (session st)\<lparr>s_challenge := None\<rparr>)\<rparr>)) \<and>
         (verify \<lparr>a_credential = credentialFromClient rq,
                  a_expectedChallenge = s_challenge (session st),
                  a_expectedOrigin = getOrigin e (userAgent rq),
                  a_expectedRPID = RP_ID e,
                  a_authenticator = Some cred\<rparr> = Verification False \<longrightarrow>
            sent (snd (post_authenticate_two_factor e verify so rq st)) =
              Some \<lparr>status = 401,
                    body = Error (''Authentication failed: '' @ GENERIC_AUTH_ERROR_MESSAGE)\<rparr>)"
proof (intro conjI impI)
  assume "verify \<lparr>a_credential = credentialFromClient rq,
                  a_expectedChallenge = s_challenge (session st),
                  a_expectedOrigin = getOrigin e (userAgent rq),
                  a_expectedRPID = RP_ID e,
                  a_authenticator = Some cred\<rparr> = VerifierThrows m"
  then show "post_authenticate_two_factor e verify so rq st =
              (Normal, (delete_challenge st)\<lparr>sent := Some \<lparr>status = 400, body = Error m\<rparr>,
                 store := (store st)(sessionID st \<mapsto> (session st)\<lparr>s_challenge := None\<rparr>)\<rparr>)"
    using assms
    by (simp add: post_authenticate_two_factor_def Let_def andThen_def ifThen_def tryCatch_def
        send_def delete_challenge_def)
next
  assume "verify \<lparr>a_credential = credentialFromClient rq,
                  a_expectedChallenge = s_challenge (session st),
                  a_expectedOrigin = getOrigin e (userAgent rq),
                  a_expectedRPID = RP_ID e,
                  a_authenticator = Some cred\<rparr> = Verification False"
  then show "sent (snd (post_authenticate_two_factor e verify so rq st)) =
              Some \<lparr>status = 401,
                    body = Error (''Authentication failed: '' @ GENERIC_AUTH_ERROR_MESSAGE)\<rparr>"
    using assms
    by (simp add: post_authenticate_two_factor_def Let_def andThen_def ifThen_def tryCatch_def
        send_def delete_challenge_def authFailed_def completeAuthentication_def regenerate_def
        save_def)
qed

theorem verifier_exception_message_leaks_witness:
  "sent (snd (post_authenticate_two_factor sample_env sample_verifier sample_store_outcome
            (sample_assertion ''forged'') awaiting_state))
     = Some \<lparr>status = 400, body = Error ''Unexpected assertion challenge''\<rparr> \<and>
   sent (snd (post_authenticate_two_factor sample_env (\<lambda>opts. Verification False) sample_store_outcome
            (sample_assertion ''forged'') awaiting_state))
     = Some \<lparr>status = 401, body = Error (''Authentication failed: '' @ GENERIC_AUTH_ERROR_MESSAGE)\<rparr> \<and>
   ''Unexpected assertion challenge'' \<noteq> ''Authentication failed: '' @ GENERIC_AUTH_ERROR_MESSAGE"
proof -
  have pre: "truthy_string (s_username (session awaiting_state))"
       "truthy_bool (s_isPasswordCorrect (session awaiting_state))"
       "findUserByUsername (s_username (session awaiting_state)) (db awaiting_state) = Some sample_user"
       "find (\<lambda>cred. credId cred = c_id (credentialFromClient (sample_assertion ''forged'')))
          (credentials sample_user) = Some sample_key"
       "sent awaiting_state = None"
    by (simp_all add: awaiting_state_def awaiting_session_def truthy_string_def truthy_bool_def
        findUserByUsername_def sample_user_def sample_key_def sample_assertion_def)
  have throws: "sample_verifier opts = VerifierThrows ''Unexpected assertion challenge''"
    if "a_credential opts = credentialFromClient (sample_assertion ''forged'')" for opts
    using that by (simp add: sample_verifier_def sample_assertion_def)
  have 1: "post_authenticate_two_factor sample_env sample_verifier sample_store_outcome
            (sample_assertion ''forged'') awaiting_state =
           (Normal, (delete_challenge awaiting_state)
              \<lparr>sent := Some \<lparr>status = 400, body = Error ''Unexpected assertion challenge''\<rparr>,
               store := (store awaiting_state)(sessionID awaiting_state \<mapsto>
                  (session awaiting_state)\<lparr>s_challenge := None\<rparr>)\<rparr>)"
    using verifier_exception_message_leaks [OF pre, of sample_verifier sample_env
            "''Unexpected assertion challenge''" sample_store_outcome]
          throws
    by simp
  have 2: "sent (snd (post_authenticate_two_factor sample_env (\<lambda>opts. Verification False)
            sample_store_outcome (sample_assertion ''forged'') awaiting_state)) =
           Some \<lparr>status = 401, body = Error (''Authentication failed: '' @ GENERIC_AUTH_ERROR_MESSAGE)\<rparr>"
    using verifier_exception_message_leaks [OF pre, of "\<lambda>opts. Verification False" sample_env]
    by simp
  have 3: "''Unexpected assertion challenge'' \<noteq> ''Authentication failed: '' @ GENERIC_AUTH_ERROR_MESSAGE"
    by (simp add: GENERIC_AUTH_ERROR_MESSAGE_def)
  show ?thesis unfolding 1 using 2 3 by simp
qed

text \<open>
  Claim C2. The handler deletes the challenge on every path through the verification
  (lines 397 and 400), but the block that answers 401 for a credential that is not stored
  (lines 377--381) does not return. On a session that has passed the password step, with
  a stored user and an asserted credential the user does not have, the 401 is sent first
  and the session is written to the store with the challenge still in it. When the
  verifier then throws or returns \<open>verified = false\<close>, the \<open>catch\<close> block deletes the
  challenge on the request's object only, and its own answer fails because a response has
  been sent. The session the store holds, which is the one the next request on the token
  reads, still carries the pending challenge: the challenge has not been cleared.
\<close>

theorem challenge_survives_unknown_credential:
  assumes "truthy_string (s_username (session st))"
      and "truthy_bool (s_isPasswordCorrect (session st))"
      and "findUserByUsername (s_username (session st)) (db st) = Some usr"
      and "find (\<lambda>cred. credId cred = c_id (credentialFromClient rq)) (credentials usr) = None"
      and "sent st = None"
      and "verify \<lparr>a_credential = credentialFromClient rq,
                  a_expectedChallenge = s_challenge (session st),
                  a_expectedOrigin = getOrigin e (userAgent rq),
                  a_expectedRPID = RP_ID e,
                  a_authenticator = None\<rparr> \<noteq> Verification True"
  shows "\<exists>st'.
           post_authenticate_two_factor e verify so rq st = (Throw HeadersSent, st') \<and>
           sent st' = Some \<lparr>status = 401,
                            body = Error (''Authentication failed: '' @ GENERIC_AUTH_ERROR_MESSAGE)\<rparr> \<and>
           sessionID st' = sessionID st \<and>
           session st' = (session st)\<lparr>s_challenge := None\<rparr> \<and>
           store st' (sessionID st) = Some (session st) \<and>
           session (next_request (sessionID st) freshID st') = session st \<and>
           s_challenge (session (next_request (sessionID st) freshID st')) = s_challenge (session st)"
proof -
  let ?opts = "\<lparr>a_credential = credentialFromClient rq,
                  a_expectedChallenge = s_challenge (session st),
                  a_expectedOrigin = getOrigin e (userAgent rq),
                  a_expectedRPID = RP_ID e,
                  a_authenticator = None\<rparr>"
  let ?st' = "(delete_challenge st)\<lparr>sent := Some \<lparr>status = 401, body = authFailed\<rparr>,
                 store := (store st)(sessionID st \<mapsto> session st)\<rparr>"
  have run: "post_authenticate_two_factor e verify so rq st = (Throw HeadersSent, ?st')"
  proof (cases "verify ?opts")
    case (VerifierThrows m)
    then show ?thesis
      using assms(1-5)
      by (simp add: post_authenticate_two_factor_def Let_def andThen_def ifThen_def tryCatch_def
          send_def delete_challenge_def)
  next
    case (Verification verified)
    then have "verify ?opts = Verification False" using assms(6) by (cases verified) simp_all
    then show ?thesis
      using assms(1-5)
      by (simp add: post_authenticate_two_factor_def Let_def andThen_def ifThen_def tryCatch_def
          send_def delete_challenge_def)
  qed
  show ?thesis
    unfolding run
    by (simp add: delete_challenge_def authFailed_def next_request_def)
qed

theorem challenge_survives_unknown_credential_witness:
  "s_challenge (session awaiting_state) = Some ''ch1'' \<and>
   store awaiting_state (sessionID awaiting_state) = Some (session awaiting_state) \<and>
   fst (post_authenticate_two_factor sample_env sample_verifier sample_store_outcome
          unknown_assertion awaiting_state) = Throw HeadersSent \<and>
   sent (snd (post_authenticate_two_factor sample_env sample_verifier sample_store_outcome
          unknown_assertion awaiting_state))
     = Some \<lparr>status = 401, body = Error (''Authentication failed: '' @ GENERIC_AUTH_ERROR_MESSAGE)\<rparr> \<and>
   s_challenge (session (next_request 1 3
      (snd (post_authenticate_two_factor sample_env sample_verifier sample_store_outcome
          unknown_assertion awaiting_state)))) = Some ''ch1''"
proof -
  have pre: "truthy_string (s_username (session awaiting_state))"
       "truthy_bool (s_isPasswordCorrect (session awaiting_state))"
       "findUserByUsername (s_username (session awaiting_state)) (db awaiting_state) = Some sample_user"
       "find (\<lambda>cred. credId cred = c_id (credentialFromClient unknown_assertion))
          (credentials sample_user) = None"
       "sent awaiting_state = None"
       "sample_verifier \<lparr>a_credential = credentialFromClient unknown_assertion,
                  a_expectedChallenge = s_challenge (session awaiting_state),
                  a_expectedOrigin = getOrigin sample_env (userAgent unknown_assertion),
                  a_expectedRPID = RP_ID sample_env,
                  a_authenticator = None\<rparr> \<noteq> Verification True"
    by (simp_all add: awaiting_state_def awaiting_session_def truthy_string_def truthy_bool_def
        findUserByUsername_def sample_user_def sample_key_def unknown_assertion_def
        sample_verifier_def)
  have sid: "sessionID awaiting_state = 1" and ch: "s_challenge (session awaiting_state) = Some ''ch1''"
    and held: "store awaiting_state (sessionID awaiting_state) = Some (session awaiting_state)"
    by (simp_all add: awaiting_state_def awaiting_session_def)
  obtain st' where r:
      "post_authenticate_two_factor sample_env sample_verifier sample_store_outcome
          unknown_assertion awaiting_state = (Throw HeadersSent, st')"
      "sent st' = Some \<lparr>status = 401,
                       body = Error (''Authentication failed: '' @ GENERIC_AUTH_ERROR_MESSAGE)\<rparr>"
      "s_challenge (session (next_request (sessionID awaiting_state) 3 st'))
         = s_challenge (session awaiting_state)"
    using challenge_survives_unknown_credential
            [where st = awaiting_state and usr = sample_user and rq = unknown_assertion
               and verify = sample_verifier and e = sample_env and so = sample_store_outcome
               and freshID = 3]
          pre
    by blast
  show ?thesis
    using r ch held unfolding sid by simp
qed

section \<open>Completing the authentication\<close>




section \<open>Registering, renaming and removing credentials\<close>

lemma findIndex_bounds: "- 1 \<le> findIndex p xs \<and> findIndex p xs < int (length xs)"
  by (induction xs) (auto simp add: Let_def)

lemma findIndex_None: "find p xs = None \<Longrightarrow> findIndex p xs = - 1"
  by (induction xs) (auto simp add: Let_def split: if_splits)

lemma findIndex_Some:
  "find p xs = Some c \<Longrightarrow> 0 \<le> findIndex p xs \<and> xs ! nat (findIndex p xs) = c"
proof (induction xs)
  case Nil
  then show ?case by simp
next
  case (Cons x xs)
  show ?case
  proof (cases "p x")
    case True
    then show ?thesis using Cons.prems by simp
  next
    case False
    then have "find p xs = Some c" using Cons.prems by simp
    then have ih: "0 \<le> findIndex p xs" "xs ! nat (findIndex p xs) = c"
      using Cons.IH by simp_all
    then show ?thesis using False by (simp add: Let_def nat_add_distrib)
  qed
qed

text \<open>
  Claim C3. A registration whose attestation verifies, on a validated request of a
  session whose user is stored, is answered 200 and appends a new credential to the
  user's sequence in every case: the look-up for an existing credential compares the
  property \<open>credID\<close>, which no stored credential has, so it never finds one. A
  \<open>credId\<close> that is already present is therefore stored a second time, and the sequence
  grows by one.
\<close>

theorem registration_appends_duplicate:
  assumes "verifyAttestationResponse
             \<lparr>t_credential = rq,
              t_expectedChallenge = s_challenge (session st),
              t_expectedOrigin = getOrigin e (r_userAgent rq),
              t_expectedRPID = RP_ID e\<rparr> = Verified info"
      and "r_valid rq"
      and "findUserByUsername (s_username (session st)) (db st) = Some usr"
      and "sent st = None"
  shows "\<exists>st'.
           post_credential e verifyAttestationResponse now rq st = (Normal, st') \<and>
           sent st' = Some \<lparr>status = 200, body = UserJson
             (usr\<lparr>credentials := credentials usr @ [newCredential info rq now]\<rparr>)\<rparr> \<and>
           findUserByUsername (s_username (session st)) (db st') =
             Some (usr\<lparr>credentials := credentials usr @ [newCredential info rq now]\<rparr>) \<and>
           credId (newCredential info rq now) = base64CredentialID info"
proof -
  let ?usr' = "usr\<lparr>credentials := credentials usr @ [newCredential info rq now]\<rparr>"
  have "findUserByUsername (s_username (session st))
          (updateUser (s_username (session st)) ?usr' (db st)) = Some ?usr'"
    using findUser_updateUser [OF assms(3), of ?usr'] by simp
  then show ?thesis
    using assms post_credential_verified [of verifyAttestationResponse rq st e info usr now]
    by (simp add: delete_challenge_def newCredential_def send_def)
qed

theorem registration_appends_duplicate_witness:
  "map (map credId \<circ> credentials) (db main_state) = [[''k1'']] \<and>
   fst (post_credential sample_env sample_attestation 1700000000000 sample_registration main_state)
     = Normal \<and>
   findUserByUsername (Some ''ann@example.com'')
     (db (snd (post_credential sample_env sample_attestation 1700000000000 sample_registration
        main_state)))
     = Some (sample_user\<lparr>credentials :=
         [sample_key, \<lparr>publicKey = ''pk1'', credId = ''k1'', name = [], transports = [''usb''],
            creationDate = 1700000000000, isResidentKey = None\<rparr>]\<rparr>) \<and>
   sent (snd (post_credential sample_env sample_attestation 1700000000000 sample_registration
        main_state))
     = Some \<lparr>status = 200, body = UserJson (sample_user\<lparr>credentials :=
         [sample_key, \<lparr>publicKey = ''pk1'', credId = ''k1'', name = [], transports = [''usb''],
            creationDate = 1700000000000, isResidentKey = None\<rparr>]\<rparr>)\<rparr>"
proof -
  let ?info = "\<lparr>base64PublicKey = ''pk1'', base64CredentialID = ''k1''\<rparr>"
  have pre: "sample_attestation
             \<lparr>t_credential = sample_registration,
              t_expectedChallenge = s_challenge (session main_state),
              t_expectedOrigin = getOrigin sample_env (r_userAgent sample_registration),
              t_expectedRPID = RP_ID sample_env\<rparr> = Verified ?info"
       "r_valid sample_registration"
       "findUserByUsername (s_username (session main_state)) (db main_state) = Some sample_user"
       "sent main_state = None"
    by (simp_all add: sample_attestation_def main_state_def main_session_def
        sample_registration_def findUserByUsername_def sample_user_def)
  have new: "credentials sample_user @ [newCredential ?info sample_registration 1700000000000] =
     [sample_key, \<lparr>publicKey = ''pk1'', credId = ''k1'', name = [], transports = [''usb''],
            creationDate = 1700000000000, isResidentKey = None\<rparr>]"
    by (simp add: sample_user_def newCredential_def sample_registration_def)
  have uname: "s_username (session main_state) = Some ''ann@example.com''"
    by (simp add: main_state_def main_session_def)
  have before: "map (map credId \<circ> credentials) (db main_state) = [[''k1'']]"
    by (simp add: main_state_def sample_user_def sample_key_def)
  obtain st' where r:
      "post_credential sample_env sample_attestation 1700000000000 sample_registration main_state
         = (Normal, st')"
      "sent st' = Some \<lparr>status = 200, body = UserJson
         (sample_user\<lparr>credentials :=
            credentials sample_user @ [newCredential ?info sample_registration 1700000000000]\<rparr>)\<rparr>"
      "findUserByUsername (s_username (session main_state)) (db st') =
         Some (sample_user\<lparr>credentials :=
            credentials sample_user @ [newCredential ?info sample_registration 1700000000000]\<rparr>)"
    using registration_appends_duplicate
            [where verifyAttestationResponse = sample_attestation and rq = sample_registration
               and st = main_state and e = sample_env and info = "?info" and usr = sample_user
               and now = 1700000000000, OF pre]
    by blast
  show ?thesis
    using before r unfolding new uname by simp
qed

text \<open>
  Claim C8. For a rename request of a session whose user is stored: when no credential of
  the user has the given \<open>credId\<close> the handler answers 400 with an error and the database
  is unchanged (the failure is the exception of the write to an undefined element, caught
  by the handler; nothing changes but the response and the write of the unchanged session
  at its end); when a credential has it and the new name is empty or missing, the
  handler answers 200 and the first such credential is stored with the empty name, the
  other credentials as they were.
\<close>

theorem rename_credential_outcome:
  assumes "q_valid rq" and "sent st = None"
      and "findUserByUsername (s_username (session st)) (db st) = Some usr"
  shows "(find (\<lambda>el. credId el = q_credId rq) (credentials usr) = None \<longrightarrow>
            (\<exists>m. put_credential rq st = (Normal, st\<lparr>sent := Some \<lparr>status = 400, body = Error m\<rparr>,
                 store := (store st)(sessionID st \<mapsto> session st)\<rparr>))) \<and>
         (find (\<lambda>el. credId el = q_credId rq) (credentials usr) \<noteq> None \<and> orEmpty (q_name rq) = [] \<longrightarrow>
            (\<exists>st' i. put_credential rq st = (Normal, st') \<and>
               i < length (credentials usr) \<and>
               credId (credentials usr ! i) = q_credId rq \<and>
               findUserByUsername (s_username (session st)) (db st') =
                 Some (usr\<lparr>credentials := (credentials usr)[i := (credentials usr ! i)\<lparr>name := []\<rparr>]\<rparr>) \<and>
               sent st' = Some \<lparr>status = 200, body = UserJson
                 (usr\<lparr>credentials := (credentials usr)[i := (credentials usr ! i)\<lparr>name := []\<rparr>]\<rparr>)\<rparr>))"
proof (intro conjI impI)
  assume "find (\<lambda>el. credId el = q_credId rq) (credentials usr) = None"
  then have "findIndex (\<lambda>el. credId el = q_credId rq) (credentials usr) = - 1"
    by (rule findIndex_None)
  then show "\<exists>m. put_credential rq st = (Normal, st\<lparr>sent := Some \<lparr>status = 400, body = Error m\<rparr>,
                 store := (store st)(sessionID st \<mapsto> session st)\<rparr>)"
    using assms by (auto simp add: put_credential_def Let_def tryCatch_def send_def)
next
  let ?p = "\<lambda>el. credId el = q_credId rq"
  let ?i = "nat (findIndex ?p (credentials usr))"
  assume h: "find ?p (credentials usr) \<noteq> None \<and> orEmpty (q_name rq) = []"
  then obtain c where c: "find ?p (credentials usr) = Some c" by auto
  have i0: "0 \<le> findIndex ?p (credentials usr)" and ic: "credentials usr ! ?i = c"
    using findIndex_Some [OF c] by simp_all
  have i1: "findIndex ?p (credentials usr) < int (length (credentials usr))"
    using findIndex_bounds by blast
  have pc: "credId c = q_credId rq"
    using c by (auto dest: find_Some_iff [THEN iffD1])
  let ?usr' = "usr\<lparr>credentials := (credentials usr)[?i := (credentials usr ! ?i)\<lparr>name := []\<rparr>]\<rparr>"
  have run: "put_credential rq st =
      (Normal, st\<lparr>db := updateCredentials (s_username (session st)) (credentials ?usr') (db st),
                  sent := Some \<lparr>status = 200, body = UserJson ?usr'\<rparr>,
                  store := (store st)(sessionID st \<mapsto> session st)\<rparr>)"
    using assms h i0 i1 by (simp add: put_credential_def Let_def tryCatch_def send_def)
  have "findUserByUsername (s_username (session st))
          (updateCredentials (s_username (session st)) (credentials ?usr') (db st)) = Some ?usr'"
    using findUser_updateCredentials [OF assms(3), of "credentials ?usr'"] by simp
  then show "\<exists>st' i. put_credential rq st = (Normal, st') \<and>
               i < length (credentials usr) \<and>
               credId (credentials usr ! i) = q_credId rq \<and>
               findUserByUsername (s_username (session st)) (db st') =
                 Some (usr\<lparr>credentials := (credentials usr)[i := (credentials usr ! i)\<lparr>name := []\<rparr>]\<rparr>) \<and>
               sent st' = Some \<lparr>status = 200, body = UserJson
                 (usr\<lparr>credentials := (credentials usr)[i := (credentials usr ! i)\<lparr>name := []\<rparr>]\<rparr>)\<rparr>"
    using run i0 i1 ic pc
    by (intro exI [of _ "snd (put_credential rq st)"] exI [of _ ?i]) simp
qed

theorem rename_credential_outcome_witness:
  "(\<exists>m. put_credential (sample_rename ''k9'') main_state
           = (Normal, main_state\<lparr>sent := Some \<lparr>status = 400, body = Error m\<rparr>,
                 store := (store main_state)(sessionID main_state \<mapsto> session main_state)\<rparr>)) \<and>
   (\<exists>st'. put_credential (sample_rename ''k1'') main_state = (Normal, st') \<and>
           findUserByUsername (Some ''ann@example.com'') (db st')
             = Some (sample_user\<lparr>credentials := [sample_key\<lparr>name := []\<rparr>]\<rparr>))"
proof -
  have pre: "q_valid (sample_rename k)" "sent main_state = None"
       "findUserByUsername (s_username (session main_state)) (db main_state) = Some sample_user"
    for k
    by (simp_all add: sample_rename_def main_state_def main_session_def findUserByUsername_def
        sample_user_def)
  have absent: "find (\<lambda>el. credId el = q_credId (sample_rename ''k9'')) (credentials sample_user) = None"
    by (simp add: sample_rename_def sample_user_def sample_key_def)
  have present: "find (\<lambda>el. credId el = q_credId (sample_rename ''k1'')) (credentials sample_user) \<noteq> None
       \<and> orEmpty (q_name (sample_rename ''k1'')) = []"
    by (simp add: sample_rename_def sample_user_def sample_key_def orEmpty_def)
  have 1: "\<exists>m. put_credential (sample_rename ''k9'') main_state
           = (Normal, main_state\<lparr>sent := Some \<lparr>status = 400, body = Error m\<rparr>,
                 store := (store main_state)(sessionID main_state \<mapsto> session main_state)\<rparr>)"
    using rename_credential_outcome [OF pre, of "''k9''"] absent by blast
  obtain st' i where r: "put_credential (sample_rename ''k1'') main_state = (Normal, st')"
      "i < length (credentials sample_user)"
      "findUserByUsername (s_username (session main_state)) (db st') =
         Some (sample_user\<lparr>credentials :=
           (credentials sample_user)[i := (credentials sample_user ! i)\<lparr>name := []\<rparr>]\<rparr>)"
    using rename_credential_outcome [OF pre, of "''k1''"] present by blast
  from r(2) have "i = 0" by (simp add: sample_user_def)
  then have "findUserByUsername (Some ''ann@example.com'') (db st')
             = Some (sample_user\<lparr>credentials := [sample_key\<lparr>name := []\<rparr>]\<rparr>)"
    using r(3) by (simp add: main_state_def main_session_def sample_user_def)
  then show ?thesis using 1 r(1) by blast
qed

section \<open>The expected origin\<close>

lemma indexOf_lower: "- 1 \<le> indexOf s pat"
  by (induction s) (auto simp add: Let_def)

lemma indexOf_zero_iff: "indexOf s pat = 0 \<longleftrightarrow> prefix pat s"
proof (cases s)
  case Nil
  then show ?thesis by simp
next
  case (Cons c cs)
  then show ?thesis
    using indexOf_lower [of cs pat] by (auto simp add: Let_def)
qed

lemma bitLength_le: "n < 2 ^ k \<Longrightarrow> bitLength n \<le> k"
proof (induction k arbitrary: n)
  case 0
  then show ?case by (subst bitLength.simps) simp
next
  case (Suc k)
  then have "n div 2 < 2 ^ k" by simp
  then have "bitLength (n div 2) \<le> k" by (rule Suc.IH)
  then show ?case by (subst bitLength.simps) simp
qed

lemma toFloat64_small: "n < 2 ^ 53 \<Longrightarrow> toFloat64 n = n"
  using bitLength_le [of n 53] by (simp add: toFloat64_def Let_def)

lemma hexDigit_Some:
  assumes "hexDigit c = Some d"
  shows "d < 16" and "\<not> isWhiteSpace c" and "c \<noteq> CHR ''-''" and "c \<noteq> CHR ''+''"
    and "c \<noteq> CHR ''x''" and "c \<noteq> CHR ''X''"
proof -
  show "d < 16" using assms by (auto simp add: hexDigit_def Let_def split: if_splits)
  show "\<not> isWhiteSpace c"
    using assms by (auto simp add: hexDigit_def isWhiteSpace_def Let_def split: if_splits)
  show "c \<noteq> CHR ''-''" using assms by (auto simp add: hexDigit_def)
  show "c \<noteq> CHR ''+''" using assms by (auto simp add: hexDigit_def)
  show "c \<noteq> CHR ''x''" using assms by (auto simp add: hexDigit_def)
  show "c \<noteq> CHR ''X''" using assms by (auto simp add: hexDigit_def)
qed

lemma parseInt16_pair:
  assumes "pairValue p = Some v"
  shows "toUint8 (parseInt16 p) = v"
proof -
  obtain a b x y where p: "p = [a, b]" and a: "hexDigit a = Some x" and b: "hexDigit b = Some y"
    and v: "v = 16 * x + y"
    using assms
    by (auto simp add: pairValue_def split: list.splits option.splits)
  have small: "16 * x + y < 256" using hexDigit_Some(1) [OF a] hexDigit_Some(1) [OF b] by simp
  then have "16 * x + y < (2::nat) ^ 53" by simp
  then have f: "toFloat64 (16 * x + y) = 16 * x + y" by (rule toFloat64_small)
  have "parseInt16 p = Some (int (16 * x + y))"
    using p a b f hexDigit_Some(2-4) [OF a] hexDigit_Some(5,6) [OF b]
    by (simp add: parseInt16_def Let_def)
  then show ?thesis using small v by (simp add: toUint8_def)
qed

lemma those_pairs:
  "those (map pairValue ps) = Some bs \<Longrightarrow> map toUint8 (map parseInt16 ps) = bs"
proof (induction ps arbitrary: bs)
  case Nil
  then show ?case by simp
next
  case (Cons p ps)
  then obtain v vs where pv: "pairValue p = Some v" and r: "those (map pairValue ps) = Some vs"
    and bs: "bs = v # vs"
    by (auto split: option.splits)
  then show ?case using Cons.IH [OF r] parseInt16_pair [OF pv] by simp
qed

lemma base64_alphabets:
  "base64urlAlphabet =
     map (\<lambda>c. if c = CHR ''+'' then CHR ''-'' else if c = CHR ''/'' then CHR ''_'' else c)
       base64Alphabet"
  "CHR ''='' \<notin> set base64Alphabet"
  "length base64Alphabet = 64"
  "length base64urlAlphabet = 64"
  by (simp_all add: base64urlAlphabet_def base64Alphabet_def)

lemma base64Char_url:
  "base64Char i \<noteq> CHR ''=''"
  "(if base64Char i = CHR ''+'' then CHR ''-''
    else if base64Char i = CHR ''/'' then CHR ''_'' else base64Char i) = base64urlChar i"
proof -
  have lt: "i mod 64 < length base64Alphabet" by (simp add: base64_alphabets(3))
  then have "base64Alphabet ! (i mod 64) \<in> set base64Alphabet" by (rule nth_mem)
  then show "base64Char i \<noteq> CHR ''=''"
    using base64_alphabets(2) by (auto simp add: base64Char_def)
  show "(if base64Char i = CHR ''+'' then CHR ''-''
    else if base64Char i = CHR ''/'' then CHR ''_'' else base64Char i) = base64urlChar i"
    unfolding base64urlChar_def base64Char_def base64_alphabets(1)
    using lt by (simp only: nth_map)
qed

lemma fromBase64_base64: "fromBase64 (base64 bs) = base64url bs"
proof (induction bs rule: base64.induct)
  case 1
  then show ?case by (simp add: fromBase64_def)
next
  case (2 a)
  then show ?case by (simp add: fromBase64_def base64Char_url)
next
  case (3 a b)
  then show ?case by (simp add: fromBase64_def base64Char_url)
next
  case (4 a b c rest)
  then show ?case by (simp add: fromBase64_def base64Char_url)
qed

lemma base64urlChar_mem: "base64urlChar i \<in> set base64urlAlphabet"
  unfolding base64urlChar_def
  by (rule nth_mem) (simp add: base64_alphabets(4))

lemma base64url_chars: "set (base64url bs) \<subseteq> set base64urlAlphabet"
  by (induction bs rule: base64url.induct) (simp_all add: base64urlChar_mem)

lemma base64url_length: "length (base64url bs) = (4 * length bs + 2) div 3"
  by (induction bs rule: base64url.induct) simp_all

text \<open>
  Claim C9. A user agent that begins with \<open>okhttp\<close> resolves to
  \<open>android:apk-key-hash:\<close> followed by the base64url text of the octets read from the
  configured hash, a function of that hash alone; when the hash is a colon-separated
  fingerprint these octets are the bytes it denotes. The text is base64url and not plain
  base64: its characters are letters, digits, \<open>-\<close> and \<open>_\<close>, and it carries no
  padding, so \<open>n\<close> bytes give \<open>(4n + 2) div 3\<close> characters. Every other user agent, the
  empty one and one that merely contains \<open>okhttp\<close> included, resolves to the configured
  origin itself.
\<close>

theorem getOrigin_resolution:
  "(prefix ''okhttp'' ua \<longrightarrow>
      getOrigin e ua = ''android:apk-key-hash:'' @
        base64url (map toUint8 (map parseInt16 (split CHR '':'' (ANDROID_SHA256HASH e))))) \<and>
   (prefix ''okhttp'' ua \<and> fingerprintBytes (ANDROID_SHA256HASH e) = Some bs \<longrightarrow>
      getOrigin e ua = ''android:apk-key-hash:'' @ base64url bs) \<and>
   set (base64url bs) \<subseteq>
     set ''ABCDEFGHIJKLMNOPQRSTUVWXYZabcdefghijklmnopqrstuvwxyz0123456789-_'' \<and>
   length (base64url bs) = (4 * length bs + 2) div 3 \<and>
   (\<not> prefix ''okhttp'' ua \<longrightarrow> getOrigin e ua = ORIGIN e)"
proof (intro conjI impI)
  assume "prefix ''okhttp'' ua"
  then show "getOrigin e ua = ''android:apk-key-hash:'' @
        base64url (map toUint8 (map parseInt16 (split CHR '':'' (ANDROID_SHA256HASH e))))"
    by (simp add: getOrigin_def Let_def indexOf_zero_iff base64url_encode_def fromBase64_base64)
next
  assume "prefix ''okhttp'' ua \<and> fingerprintBytes (ANDROID_SHA256HASH e) = Some bs"
  then show "getOrigin e ua = ''android:apk-key-hash:'' @ base64url bs"
    using those_pairs [of "split CHR '':'' (ANDROID_SHA256HASH e)" bs]
    by (simp add: getOrigin_def Let_def indexOf_zero_iff base64url_encode_def fromBase64_base64
        fingerprintBytes_def)
next
  show "set (base64url bs) \<subseteq>
     set ''ABCDEFGHIJKLMNOPQRSTUVWXYZabcdefghijklmnopqrstuvwxyz0123456789-_''"
    using base64url_chars [of bs] by (simp only: base64urlAlphabet_def)
  show "length (base64url bs) = (4 * length bs + 2) div 3" by (rule base64url_length)
next
  assume "\<not> prefix ''okhttp'' ua"
  then show "getOrigin e ua = ORIGIN e"
    by (simp add: getOrigin_def indexOf_zero_iff)
qed

theorem getOrigin_resolution_witness:
  "getOrigin sha256_env ''okhttp/3.12.1''
     = ''android:apk-key-hash:47DEQpj8HBSa-_TImW-5JCeuQeRkm5NMpJWZG3hSuFU'' \<and>
   getOrigin sample_env ''okhttp/3.12.1'' = ''android:apk-key-hash:AQID'' \<and>
   getOrigin sha256_env ''Mozilla/5.0 okhttp'' = ''https://example.com'' \<and>
   getOrigin sha256_env [] = ''https://example.com''"
proof -
  let ?bs = "[227, 176, 196, 66, 152, 252, 28, 20, 154, 251, 244, 200, 153, 111, 185, 36,
              39, 174, 65, 228, 100, 155, 147, 76, 164, 149, 153, 27, 120, 82, 184, 85] :: nat list"
  have fp: "fingerprintBytes (ANDROID_SHA256HASH sha256_env) = Some ?bs"
    by (simp add: sha256_env_def fingerprintBytes_def pairValue_def hexDigit_def)
  have enc: "base64url ?bs = ''47DEQpj8HBSa-_TImW-5JCeuQeRkm5NMpJWZG3hSuFU''"
    by (simp add: base64urlChar_def base64urlAlphabet_def)
  have fp3: "fingerprintBytes (ANDROID_SHA256HASH sample_env) = Some [1, 2, 3]"
    by (simp add: sample_env_def fingerprintBytes_def pairValue_def hexDigit_def)
  have enc3: "base64url [1, 2, 3] = ''AQID''"
    by (simp add: base64urlChar_def base64urlAlphabet_def)
  have native: "prefix ''okhttp'' ''okhttp/3.12.1''" by simp
  have other: "\<not> prefix ''okhttp'' ''Mozilla/5.0 okhttp''" "\<not> prefix ''okhttp'' []" by simp_all
  have web: "ORIGIN sha256_env = ''https://example.com''" by (simp add: sha256_env_def)
  have 1: "getOrigin sha256_env ''okhttp/3.12.1'' = ''android:apk-key-hash:'' @ base64url ?bs"
    using getOrigin_resolution [of "''okhttp/3.12.1''" sha256_env ?bs] native fp by blast
  have 2: "getOrigin sample_env ''okhttp/3.12.1'' = ''android:apk-key-hash:'' @ base64url [1, 2, 3]"
    using getOrigin_resolution [of "''okhttp/3.12.1''" sample_env "[1, 2, 3]"] native fp3 by blast
  have 3: "getOrigin sha256_env ''Mozilla/5.0 okhttp'' = ORIGIN sha256_env"
    using getOrigin_resolution [of "''Mozilla/5.0 okhttp''" sha256_env] other(1) by blast
  have 4: "getOrigin sha256_env [] = ORIGIN sha256_env"
    using getOrigin_resolution [of "[]" sha256_env] other(2) by blast
  show ?thesis
    unfolding 1 2 3 4 enc enc3 web by simp
qed

end
